theory Spec2Isabelle
  imports Complex_Main "HOL-Library.Sublist"
begin

section \<open>JavaScript values used by the tourism platform\<close>

text \<open>
  A JavaScript string is a sequence of UTF-16 code units; a code unit is modelled as a
  natural number. \<open>js\<close> embeds an ASCII literal; the umlauts of the city tables are
  written as their code units (\<open>0xFC\<close> for u-umlaut, \<open>0xF6\<close> for o-umlaut).
\<close>

type_synonym jsstring = "nat list"

definition js :: "string \<Rightarrow> jsstring" where
  "js s = map of_char s"

text \<open>
  \<open>String.prototype.includes\<close>: the needle occurs as a contiguous run of code units.
\<close>

definition str_includes :: "jsstring \<Rightarrow> jsstring \<Rightarrow> bool" where
  "str_includes hay needle = sublist needle hay"

text \<open>
  \<open>toLowerCase\<close> and \<open>toUpperCase\<close> are given for the code units below \<open>0x100\<close>
  (Basic Latin and Latin-1 Supplement), where they follow the Unicode case mappings that
  ECMAScript uses, special cases included: sharp s upper-cases to \<open>SS\<close>, the micro sign
  to \<open>U+039C\<close> and y-diaeresis to \<open>U+0178\<close>. Code units from \<open>0x100\<close> on are left
  as they are, which is what ECMAScript does for the white space characters among them
  but not for the cased letters there: ECMAScript lower-cases the Kelvin sign \<open>U+212A\<close>
  to \<open>k\<close> and upper-cases the long s \<open>U+017F\<close> to \<open>S\<close>, for instance. On the
  strings of \<open>latin1OrSpace\<close>, whose code units are below \<open>0x100\<close> or white space,
  \<open>toLowerCase\<close> is the function of ECMAScript; what is stated about every
  unresolvable input of the connections endpoint is stated for these strings.
\<close>

definition lowerUnit :: "nat \<Rightarrow> nat" where
  "lowerUnit c =
     (if 0x41 \<le> c \<and> c \<le> 0x5A then c + 32
      else if 0xC0 \<le> c \<and> c \<le> 0xDE \<and> c \<noteq> 0xD7 then c + 32
      else c)"

definition toLowerCase :: "jsstring \<Rightarrow> jsstring" where
  "toLowerCase s = map lowerUnit s"

definition upperUnit :: "nat \<Rightarrow> jsstring" where
  "upperUnit c =
     (if 0x61 \<le> c \<and> c \<le> 0x7A then [c - 32]
      else if c = 0xB5 then [0x39C]
      else if c = 0xDF then [0x53, 0x53]
      else if 0xE0 \<le> c \<and> c \<le> 0xFE \<and> c \<noteq> 0xF7 then [c - 32]
      else if c = 0xFF then [0x178]
      else [c])"

definition toUpperCase :: "jsstring \<Rightarrow> jsstring" where
  "toUpperCase s = concat (map upperUnit s)"

text \<open>
  \<open>String.prototype.trim\<close> strips the ECMAScript WhiteSpace and LineTerminator code
  points from both ends.
\<close>

definition isWhiteSpace :: "nat \<Rightarrow> bool" where
  "isWhiteSpace c =
     (c = 0x09 \<or> c = 0x0A \<or> c = 0x0B \<or> c = 0x0C \<or> c = 0x0D \<or> c = 0x20 \<or> c = 0xA0
      \<or> c = 0x1680 \<or> (0x2000 \<le> c \<and> c \<le> 0x200A) \<or> c = 0x2028 \<or> c = 0x2029
      \<or> c = 0x202F \<or> c = 0x205F \<or> c = 0x3000 \<or> c = 0xFEFF)"

definition trim :: "jsstring \<Rightarrow> jsstring" where
  "trim s = rev (dropWhile isWhiteSpace (rev (dropWhile isWhiteSpace s)))"

definition latin1OrSpace :: "jsstring \<Rightarrow> bool" where
  "latin1OrSpace s = list_all (\<lambda>c. c < 0x100 \<or> isWhiteSpace c) s"

definition isDigit :: "nat \<Rightarrow> bool" where
  "isDigit c = (0x30 \<le> c \<and> c \<le> 0x39)"

definition isUpperAZ :: "nat \<Rightarrow> bool" where
  "isUpperAZ c = (0x41 \<le> c \<and> c \<le> 0x5A)"

text \<open>
  Decimal rendering of an integral number, as a template literal produces it. A negative
  zero prints as \<open>0\<close> in JavaScript, as the integer zero does here.
\<close>

fun showNat :: "nat \<Rightarrow> jsstring" where
  "showNat n = (if n < 10 then [0x30 + n] else showNat (n div 10) @ [0x30 + n mod 10])"

declare showNat.simps [simp del]

definition showInt :: "int \<Rightarrow> jsstring" where
  "showInt i = (if i < 0 then js ''-'' @ showNat (nat (- i)) else showNat (nat i))"

text \<open>
  \<open>Math.round\<close> returns the nearest integer, a tie going towards plus infinity. The
  arguments it gets here are quotients of integers, taken exactly.
\<close>

definition Math_round :: "rat \<Rightarrow> int" where
  "Math_round x = \<lfloor>x + 1 / 2\<rfloor>"

text \<open>
  A value that may be \<open>null\<close> or \<open>undefined\<close> (an optional, nullable field).
\<close>

datatype 'a nullable = Null | Undefined | Val 'a

section \<open>The rail transport client: helper functions (src/lib/db-transport.ts)\<close>

text \<open>
  Of a leg, the fields the helper functions read: the ISO timestamps \<open>departure\<close> and
  \<open>arrival\<close>, and the optional flag \<open>walking\<close> (\<open>None\<close> when the field is missing).
\<close>

record Leg =
  departure :: jsstring
  arrival :: jsstring
  walking :: "bool option"

record Journey =
  legs :: "Leg list"

text \<open>
  What a function throws: an \<open>Error\<close> (or one of its subclasses) with its message, or a
  value that is no \<open>Error\<close>.
\<close>

datatype js_error = Error jsstring | TypeError jsstring | SyntaxError jsstring | Thrown

text \<open>
  \<open>formatDelay(delaySeconds)\<close>: the delay is a whole number of seconds.
\<close>

definition formatDelay :: "int nullable \<Rightarrow> jsstring" where
  "formatDelay delaySeconds =
     (case delaySeconds of
        Null \<Rightarrow> []
      | Undefined \<Rightarrow> []
      | Val d \<Rightarrow>
          if d = 0 then []
          else
            let minutes = Math_round (of_int d / 60) in
            if minutes > 0 then js ''+'' @ showInt minutes @ js '' min''
            else showInt minutes @ js '' min'')"

text \<open>
  \<open>getJourneyDuration(journey)\<close>. Reading an element of an array outside its range
  gives \<open>undefined\<close>, and reading a field of \<open>undefined\<close> throws a TypeError:
  \<open>element\<close> and the \<open>Inl (TypeError _)\<close> branches keep that visible.
  \<open>new Date(s).getTime()\<close> is the parameter \<open>getTime\<close>: the milliseconds since the
  epoch, or \<open>None\<close> for NaN (an invalid date). The result is a number, \<open>None\<close> for NaN.
\<close>

definition element :: "'a list \<Rightarrow> int \<Rightarrow> 'a option" where
  "element xs i = (if 0 \<le> i \<and> i < int (length xs) then Some (xs ! nat i) else None)"

definition getJourneyDuration :: "(jsstring \<Rightarrow> int option) \<Rightarrow> Journey \<Rightarrow> js_error + int option" where
  "getJourneyDuration getTime j =
     (if length (legs j) = 0 then Inr (Some 0)
      else
        case element (legs j) 0 of
          None \<Rightarrow> Inl (TypeError (js ''Cannot read properties of undefined''))
        | Some firstLeg \<Rightarrow>
            (case element (legs j) (int (length (legs j)) - 1) of
               None \<Rightarrow> Inl (TypeError (js ''Cannot read properties of undefined''))
             | Some lastLeg \<Rightarrow>
                 (case (getTime (departure firstLeg), getTime (arrival lastLeg)) of
                    (Some start, Some end') \<Rightarrow>
                       Inr (Some (Math_round (of_int (end' - start) / (1000 * 60))))
                  | _ \<Rightarrow> Inr None)))"

text \<open>
  \<open>getTransferCount(journey)\<close>: \<open>!leg.walking\<close> holds when the flag is missing or false.
\<close>

definition getTransferCount :: "Journey \<Rightarrow> int" where
  "getTransferCount j =
     (let transportLegs = filter (\<lambda>l. walking l \<noteq> Some True) (legs j)
      in max 0 (int (length transportLegs) - 1))"

section \<open>The flight client (src/lib/amadeus-flights.ts)\<close>

text \<open>
  \<open>GERMAN_AIRPORTS\<close> is an object literal, and \<open>GERMAN_AIRPORTS[city]\<close> is a property
  read: it finds the object's own properties and, failing that, the members that every
  plain object inherits from \<open>Object.prototype\<close> (functions, and the prototype object
  itself under \<open>__proto__\<close>). A value is either a string or such an inherited member,
  kept by its name. \<open>Object.entries\<close> lists the own properties in the order written.
\<close>

datatype jsval = JSString jsstring | JSInherited jsstring

definition objectPrototypeNames :: "jsstring list" where
  "objectPrototypeNames =
     [js ''constructor'', js ''__defineGetter__'', js ''__defineSetter__'',
      js ''hasOwnProperty'', js ''__lookupGetter__'', js ''__lookupSetter__'',
      js ''isPrototypeOf'', js ''propertyIsEnumerable'', js ''toString'', js ''valueOf'',
      js ''__proto__'', js ''toLocaleString'']"

definition getProperty :: "(jsstring \<times> jsstring) list \<Rightarrow> jsstring \<Rightarrow> jsval option" where
  "getProperty obj key =
     (case map_of obj key of
        Some v \<Rightarrow> Some (JSString v)
      | None \<Rightarrow> if key \<in> set objectPrototypeNames then Some (JSInherited key) else None)"

text \<open>Truthiness: \<open>undefined\<close> and the empty string are falsy, functions and objects truthy.\<close>

fun truthy :: "jsval option \<Rightarrow> bool" where
  "truthy None = False"
| "truthy (Some (JSString s)) = (s \<noteq> [])"
| "truthy (Some (JSInherited n)) = True"

definition GERMAN_AIRPORTS :: "(jsstring \<times> jsstring) list" where
  "GERMAN_AIRPORTS =
     [(js ''Berlin'', js ''BER''),
      (js ''Frankfurt'', js ''FRA''),
      (js ''M'' @ [0xFC] @ js ''nchen'', js ''MUC''),
      (js ''Hamburg'', js ''HAM''),
      (js ''D'' @ [0xFC] @ js ''sseldorf'', js ''DUS''),
      (js ''K'' @ [0xF6] @ js ''ln'', js ''CGN''),
      (js ''Stuttgart'', js ''STR''),
      (js ''Hannover'', js ''HAJ''),
      (js ''N'' @ [0xFC] @ js ''rnberg'', js ''NUE''),
      (js ''Leipzig'', js ''LEJ''),
      (js ''Dresden'', js ''DRS''),
      (js ''Bremen'', js ''BRE'')]"

text \<open>The loop of getAirportCode over \<open>Object.entries(GERMAN_AIRPORTS)\<close>.\<close>

fun partialMatch :: "(jsstring \<times> jsstring) list \<Rightarrow> jsstring \<Rightarrow> jsstring option" where
  "partialMatch [] normalized = None"
| "partialMatch ((name, code) # rest) normalized =
     (if str_includes (toLowerCase name) normalized \<or> str_includes normalized (toLowerCase name)
      then Some code
      else partialMatch rest normalized)"

text \<open>The regular expression \<open>^[A-Z]{3}$\<close>.\<close>

definition isIataPattern :: "jsstring \<Rightarrow> bool" where
  "isIataPattern s = (length s = 3 \<and> list_all isUpperAZ s)"

definition getAirportCode :: "jsstring \<Rightarrow> jsval option" where
  "getAirportCode city =
     (if truthy (getProperty GERMAN_AIRPORTS city) then getProperty GERMAN_AIRPORTS city
      else
        case partialMatch GERMAN_AIRPORTS (toLowerCase city) of
          Some code \<Rightarrow> Some (JSString code)
        | None \<Rightarrow>
            if isIataPattern (toUpperCase city) then Some (JSString (toUpperCase city))
            else None)"

section \<open>The flight search endpoint (src/pages/api/flights/search.ts)\<close>

record mock_flight =
  flight_id :: jsstring
  price :: int
  currency :: jsstring
  departure_time :: jsstring
  departure_airport :: jsval
  arrival_time :: jsstring
  arrival_airport :: jsval
  duration :: jsstring
  durationMinutes :: int
  stops :: int
  airline :: jsstring
  airlineCode :: jsstring
  flightNumber :: jsstring
  stopover :: "jsstring option"

text \<open>
  The body of a response of the endpoint: an error message, the mock document (flights,
  the flag \<open>mock\<close>, a message) or the live document (flights, origin, destination).
\<close>

datatype 'f flights_body =
    FlightsError jsstring
  | MockFlights "mock_flight list" bool jsstring
  | LiveFlights "'f list" jsval jsval

text \<open>
  A response of a handler: the status, the JSON body and the Cache-Control header when
  one is set (the Content-Type is always application/json).
\<close>

record 'b response =
  status :: nat
  body :: 'b
  cacheControl :: "jsstring option"

text \<open>
  \<open>getMockFlights(from, to, date)\<close>; \<open>rnd\<close> is the value of
  \<open>Math.floor(Math.random() * 150)\<close>.
\<close>

definition getMockFlights :: "int \<Rightarrow> jsval \<Rightarrow> jsval \<Rightarrow> jsstring \<Rightarrow> 'f flights_body" where
  "getMockFlights rnd from' to' date =
     (let basePrice = rnd + 50 in
      MockFlights
        [\<lparr>flight_id = js ''mock-1'', price = basePrice, currency = js ''EUR'',
          departure_time = date @ js ''T08:30:00'', departure_airport = from',
          arrival_time = date @ js ''T10:15:00'', arrival_airport = to',
          duration = js ''1h 45m'', durationMinutes = 105, stops = 0,
          airline = js ''Lufthansa'', airlineCode = js ''LH'', flightNumber = js ''LH 123'',
          stopover = None\<rparr>,
         \<lparr>flight_id = js ''mock-2'', price = basePrice - 20, currency = js ''EUR'',
          departure_time = date @ js ''T12:00:00'', departure_airport = from',
          arrival_time = date @ js ''T14:30:00'', arrival_airport = to',
          duration = js ''2h 30m'', durationMinutes = 150, stops = 1,
          airline = js ''Eurowings'', airlineCode = js ''EW'', flightNumber = js ''EW 456'',
          stopover = Some (js ''DUS'')\<rparr>,
         \<lparr>flight_id = js ''mock-3'', price = basePrice + 30, currency = js ''EUR'',
          departure_time = date @ js ''T18:45:00'', departure_airport = from',
          arrival_time = date @ js ''T20:20:00'', arrival_airport = to',
          duration = js ''1h 35m'', durationMinutes = 95, stops = 0,
          airline = js ''Lufthansa'', airlineCode = js ''LH'', flightNumber = js ''LH 789'',
          stopover = None\<rparr>]
        True
        (js ''Amadeus API not configured. Showing example data.''))"

text \<open>
  The query parameters of a request (\<open>None\<close> when \<open>searchParams.get\<close> gives \<open>null\<close>);
  \<open>param_adults\<close> is the value of \<open>parseInt(url.searchParams.get('adults') || '1')\<close>,
  \<open>None\<close> for NaN.
\<close>

record flights_request =
  param_from :: "jsstring option"
  param_to :: "jsstring option"
  param_date :: "jsstring option"
  param_return :: "jsstring option"
  param_adults :: "int option"
  param_class :: "jsstring option"

record search_options =
  origin :: jsval
  destination :: jsval
  departureDate :: jsstring
  returnDate :: "jsstring option"
  adults :: "int option"
  travelClass :: jsstring
  maxResults :: int

text \<open>\<open>!x\<close> for a parameter: it is \<open>null\<close> or the empty string.\<close>

definition missing :: "jsstring option \<Rightarrow> bool" where
  "missing p = (p = None \<or> p = Some [])"

text \<open>\<open>x || d\<close> for a string parameter.\<close>

definition orElse :: "jsstring option \<Rightarrow> jsstring \<Rightarrow> jsstring" where
  "orElse p d = (if missing p then d else the p)"

text \<open>
  \<open>response.data.map(offer => transformFlightOffer(offer, carriers))\<close>: the first offer
  whose transformation throws ends the map.
\<close>

fun mapThrowing :: "('o \<Rightarrow> 'e + 'f) \<Rightarrow> 'o list \<Rightarrow> 'e + 'f list" where
  "mapThrowing f [] = Inr []"
| "mapThrowing f (x # xs) =
     (case f x of
        Inl e \<Rightarrow> Inl e
      | Inr y \<Rightarrow> (case mapThrowing f xs of Inl e \<Rightarrow> Inl e | Inr ys \<Rightarrow> Inr (y # ys)))"

text \<open>
  The handler. \<open>configured\<close> is \<open>isAmadeusConfigured()\<close>. The provider client
  \<open>searchFlights\<close> and \<open>transformFlightOffer\<close> are parameters: each returns its value
  or the message of what it throws (\<open>None\<close> for a thrown value without a message).
  The result is the response and the list of the calls made to the provider.
\<close>

definition GET_flights_search ::
  "bool \<Rightarrow> int \<Rightarrow> (search_options \<Rightarrow> jsstring option + 'o list) \<Rightarrow> ('o \<Rightarrow> jsstring option + 'f)
   \<Rightarrow> flights_request \<Rightarrow> 'f flights_body response \<times> search_options list" where
  "GET_flights_search configured rnd searchFlights transformFlightOffer req =
     (if missing (param_from req) \<or> missing (param_to req) \<or> missing (param_date req) then
        (\<lparr>status = 400,
          body = FlightsError (js ''Parameters \"from\", \"to\", and \"date\" are required''),
          cacheControl = None\<rparr>, [])
      else
        let from' = the (param_from req); to' = the (param_to req); date = the (param_date req);
            originCode = getAirportCode from'; destCode = getAirportCode to'
        in
        if \<not> truthy originCode then
          (\<lparr>status = 400,
            body = FlightsError (js ''Unknown origin airport: '' @ from'
                      @ js ''. Use IATA code (e.g., FRA, MUC).''),
            cacheControl = None\<rparr>, [])
        else if \<not> truthy destCode then
          (\<lparr>status = 400,
            body = FlightsError (js ''Unknown destination airport: '' @ to'
                      @ js ''. Use IATA code (e.g., FRA, MUC).''),
            cacheControl = None\<rparr>, [])
        else if \<not> configured then
          (\<lparr>status = 200, body = getMockFlights rnd (the originCode) (the destCode) date,
            cacheControl = None\<rparr>, [])
        else
          let opts = \<lparr>origin = the originCode, destination = the destCode,
                      departureDate = date,
                      returnDate = (if missing (param_return req) then None else param_return req),
                      adults = param_adults req,
                      travelClass = orElse (param_class req) (js ''ECONOMY''),
                      maxResults = 10\<rparr>;
              outcome = (case searchFlights opts of
                           Inl e \<Rightarrow> Inl e
                         | Inr offers \<Rightarrow> mapThrowing transformFlightOffer offers)
          in
          case outcome of
            Inr flights \<Rightarrow>
              (\<lparr>status = 200, body = LiveFlights flights (the originCode) (the destCode),
                cacheControl = Some (js ''public, max-age=300'')\<rparr>, [opts])
          | Inl message \<Rightarrow>
              if (case message of None \<Rightarrow> False | Some m \<Rightarrow> str_includes m (js ''credentials'')) then
                (\<lparr>status = 200, body = getMockFlights rnd (the originCode) (the destCode) date,
                  cacheControl = None\<rparr>, [opts])
              else
                (\<lparr>status = 500, body = FlightsError (js ''Failed to search flights''),
                  cacheControl = None\<rparr>, [opts]))"

section \<open>The cache of the rail transport client (src/lib/db-transport.ts)\<close>

text \<open>
  The module-level \<open>Map\<close> from request URL to the stored data and its expiry time, in
  milliseconds since the epoch.
\<close>

record 'd cache_entry =
  data :: 'd
  expires :: int

type_synonym 'd cache = "jsstring \<rightharpoonup> 'd cache_entry"

text \<open>
  What \<open>fetch\<close> delivers: the flag \<open>ok\<close>, the status and its text, and the outcome of
  \<open>response.json()\<close>. A rejected \<open>fetch\<close> is an error.
\<close>

record 'd fetched =
  resp_ok :: bool
  resp_status :: nat
  resp_statusText :: jsstring
  resp_json :: "js_error + 'd"

definition CACHE_TTL :: int where
  "CACHE_TTL = 60 * 1000"

text \<open>
  \<open>fetchWithCache(url, ttl)\<close>. The network is the parameter \<open>fetch\<close>; \<open>Date.now()\<close>
  is read twice, as \<open>now\<close> when the entry is checked and as \<open>later\<close> when the fresh
  data is stored. The result is what the call returns or throws, the cache afterwards
  and the URLs fetched.
\<close>

definition fetchWithCache ::
  "(jsstring \<Rightarrow> js_error + 'd fetched) \<Rightarrow> int \<Rightarrow> int \<Rightarrow> 'd cache \<Rightarrow> jsstring \<Rightarrow> int
   \<Rightarrow> (js_error + 'd) \<times> 'd cache \<times> jsstring list" where
  "fetchWithCache fetch now later cache url ttl =
     (case (case cache url of
              None \<Rightarrow> None
            | Some cached \<Rightarrow> if expires cached > now then Some (data cached) else None) of
        Some d \<Rightarrow> (Inr d, cache, [])
      | None \<Rightarrow>
          (case fetch url of
             Inl e \<Rightarrow> (Inl e, cache, [url])
           | Inr response \<Rightarrow>
               if \<not> resp_ok response then
                 (Inl (Error (js ''DB API Error: '' @ showNat (resp_status response) @ js '' ''
                          @ resp_statusText response)),
                  cache, [url])
               else
                 (case resp_json response of
                    Inl e \<Rightarrow> (Inl e, cache, [url])
                  | Inr d \<Rightarrow>
                      (Inr d, cache(url \<mapsto> \<lparr>data = d, expires = later + ttl\<rparr>), [url]))))"

section \<open>The departures endpoint (src/pages/api/transport/departures.ts)\<close>

text \<open>Of the provider's data, the fields the handler reads.\<close>

record Stop =
  stop_id :: jsstring
  stop_name :: jsstring

record Line =
  line_name :: jsstring
  line_product :: jsstring

record Remark =
  remark_type :: jsstring
  remark_text :: "jsstring option"
  remark_summary :: "jsstring option"

record Departure =
  dep_when :: "jsstring option"
  plannedWhen :: jsstring
  delay :: "int nullable"
  platform :: "jsstring option"
  plannedPlatform :: "jsstring option"
  direction :: jsstring
  dep_line :: "Line option"
  remarks :: "Remark list option"

record DeparturesResponse =
  departures :: "Departure list"
  realtimeDataUpdatedAt :: "int option"

text \<open>\<open>getProductIcon(product)\<close>: \<open>icons[product] || product\<close>, a property read again.\<close>

definition icons :: "(jsstring \<times> jsstring) list" where
  "icons =
     [(js ''nationalExpress'', js ''ICE''), (js ''national'', js ''IC''),
      (js ''regionalExp'', js ''RE''), (js ''regional'', js ''RB''),
      (js ''suburban'', js ''S''), (js ''subway'', js ''U''), (js ''tram'', js ''Tram''),
      (js ''bus'', js ''Bus''), (js ''ferry'', js ''F'' @ [0xE4] @ js ''hre''),
      (js ''taxi'', js ''Taxi'')]"

definition getProductIcon :: "jsstring \<Rightarrow> jsval" where
  "getProductIcon product =
     (if truthy (getProperty icons product) then the (getProperty icons product)
      else JSString product)"

text \<open>An element of the \<open>departures\<close> array of the response.\<close>

record departure_view =
  out_time :: "jsstring option"
  out_plannedTime :: jsstring
  out_delay :: jsstring
  out_delayMinutes :: int
  out_line :: "jsstring option"
  out_product :: "jsstring option"
  out_productIcon :: jsval
  out_direction :: jsstring
  out_platform :: "jsstring option"
  out_plannedPlatform :: "jsstring option"
  out_platformChanged :: bool
  out_cancelled :: bool
  out_remarks :: "jsstring option list option"

definition remarkText :: "Remark \<Rightarrow> jsstring option" where
  "remarkText r = (if missing (remark_summary r) then remark_text r else remark_summary r)"

definition departureView :: "Departure \<Rightarrow> departure_view" where
  "departureView dep =
     \<lparr>out_time = dep_when dep,
      out_plannedTime = plannedWhen dep,
      out_delay = formatDelay (delay dep),
      out_delayMinutes =
        (case delay dep of Val d \<Rightarrow> if d \<noteq> 0 then Math_round (of_int d / 60) else 0 | _ \<Rightarrow> 0),
      out_line = map_option line_name (dep_line dep),
      out_product = map_option line_product (dep_line dep),
      out_productIcon = getProductIcon (orElse (map_option line_product (dep_line dep)) []),
      out_direction = direction dep,
      out_platform = platform dep,
      out_plannedPlatform = plannedPlatform dep,
      out_platformChanged = (platform dep \<noteq> plannedPlatform dep \<and> plannedPlatform dep \<noteq> None),
      out_cancelled = (dep_when dep = None),
      out_remarks =
        map_option
          (\<lambda>rs. map remarkText
             (filter (\<lambda>r. remark_type r = js ''warning'' \<or> remark_type r = js ''status'') rs))
          (remarks dep)\<rparr>"

datatype departures_body =
    DeparturesError jsstring
  | DeparturesOk jsstring jsstring "departure_view list" "int option"

text \<open>
  The query parameters: \<open>param_duration\<close> and \<open>param_results\<close> are the values of
  \<open>parseInt(url.searchParams.get(...) || '60')\<close> and \<open>parseInt(... || '20')\<close>, \<open>None\<close>
  for NaN (\<open>Math.min\<close> of NaN and a number is NaN).
\<close>

record departures_request =
  param_station :: "jsstring option"
  param_duration :: "int option"
  param_results :: "int option"

text \<open>The regular expression \<open>^\d{7,8}$\<close>.\<close>

definition isStationId :: "jsstring \<Rightarrow> bool" where
  "isStationId s = ((length s = 7 \<or> length s = 8) \<and> list_all isDigit s)"

text \<open>The calls a handler makes to the rail transport client, in order.\<close>

datatype transport_call =
    SearchLocations jsstring int
  | GetDepartures jsstring "int option" "int option"

text \<open>
  The handler. The client functions \<open>searchLocations(query, {results})\<close> and
  \<open>getDepartures(stopId, {duration, results})\<close> are parameters, each returning its
  value or what it throws.
\<close>

definition GET_departures ::
  "(jsstring \<Rightarrow> int \<Rightarrow> js_error + Stop list)
   \<Rightarrow> (jsstring \<Rightarrow> int option \<Rightarrow> int option \<Rightarrow> js_error + DeparturesResponse)
   \<Rightarrow> departures_request \<Rightarrow> departures_body response \<times> transport_call list" where
  "GET_departures searchLocations getDepartures req =
     (if missing (param_station req) then
        (\<lparr>status = 400, body = DeparturesError (js ''Parameter \"station\" is required''),
          cacheControl = None\<rparr>, [])
      else
        let station = the (param_station req);
            failed = \<lparr>status = 500, body = DeparturesError (js ''Failed to fetch departures''),
                      cacheControl = None\<rparr>;
            load = (\<lambda>stationId stationName calls.
              let duration = map_option (\<lambda>d. min d 720) (param_duration req);
                  results = map_option (\<lambda>r. min r 50) (param_results req);
                  calls' = calls @ [GetDepartures stationId duration results]
              in
              case getDepartures stationId duration results of
                Inl e \<Rightarrow> (failed, calls')
              | Inr resp \<Rightarrow>
                  (\<lparr>status = 200,
                    body = DeparturesOk stationId stationName
                             (map departureView (departures resp)) (realtimeDataUpdatedAt resp),
                    cacheControl = Some (js ''public, max-age=30'')\<rparr>, calls'))
        in
        if \<not> isStationId station then
          (case searchLocations station 1 of
             Inl e \<Rightarrow> (failed, [SearchLocations station 1])
           | Inr found \<Rightarrow>
               (case found of
                  [] \<Rightarrow>
                    (\<lparr>status = 404, body = DeparturesError (js ''Station not found: '' @ station),
                      cacheControl = None\<rparr>, [SearchLocations station 1])
                | topStop # others \<Rightarrow> load (stop_id topStop) (stop_name topStop) [SearchLocations station 1]))
        else load station station [])"

section \<open>The connections endpoint (src/pages/api/connections.ts)\<close>

definition CITY_COORDS :: "(jsstring \<times> jsstring) list" where
  "CITY_COORDS =
     [(js ''berlin'', js ''52.5200,13.4050''),
      (js ''hamburg'', js ''53.5511,9.9937''),
      (js ''m'' @ [0xFC] @ js ''nchen'', js ''48.1351,11.5820''),
      (js ''muenchen'', js ''48.1351,11.5820''),
      (js ''k'' @ [0xF6] @ js ''ln'', js ''50.9375,6.9603''),
      (js ''koeln'', js ''50.9375,6.9603''),
      (js ''frankfurt'', js ''50.1109,8.6821''),
      (js ''d'' @ [0xFC] @ js ''sseldorf'', js ''51.2277,6.7735''),
      (js ''duesseldorf'', js ''51.2277,6.7735''),
      (js ''stuttgart'', js ''48.7758,9.1829''),
      (js ''dortmund'', js ''51.5136,7.4653''),
      (js ''essen'', js ''51.4556,7.0116''),
      (js ''leipzig'', js ''51.3397,12.3731''),
      (js ''dresden'', js ''51.0504,13.7373''),
      (js ''hannover'', js ''52.3759,9.7320''),
      (js ''n'' @ [0xFC] @ js ''rnberg'', js ''49.4521,11.0767''),
      (js ''nuernberg'', js ''49.4521,11.0767''),
      (js ''bremen'', js ''53.0793,8.8017'')]"

text \<open>
  The regular expression \<open>^\d+\.\d+,\d+\.\d+$\<close>, read from left to right: \<open>digits\<close>
  takes one or more digits, as many as there are (what follows a run of digits in the
  expression is never a digit, so the longest run is the only one that can match), and
  \<open>literal\<close> takes one given code unit. Each gives the rest of the input.
\<close>

definition digits :: "jsstring \<Rightarrow> jsstring option" where
  "digits s = (if takeWhile isDigit s = [] then None else Some (dropWhile isDigit s))"

fun literal :: "nat \<Rightarrow> jsstring \<Rightarrow> jsstring option" where
  "literal c [] = None"
| "literal c (x # rest) = (if x = c then Some rest else None)"

definition isCoordPair :: "jsstring \<Rightarrow> bool" where
  "isCoordPair s =
     (Option.bind (Option.bind (Option.bind (Option.bind (Option.bind (Option.bind
        (digits s) (literal 0x2E)) digits) (literal 0x2C)) digits) (literal 0x2E)) digits
      = Some [])"

definition resolveLocation :: "jsstring \<Rightarrow> js_error + jsval" where
  "resolveLocation input =
     (let normalized = trim (toLowerCase input) in
      if isCoordPair input then Inr (JSString input)
      else if truthy (getProperty CITY_COORDS normalized) then
        Inr (the (getProperty CITY_COORDS normalized))
      else Inl (Error (js ''Unbekannte Stadt: '' @ input @ js ''. Bitte Koordinaten angeben.'')))"

text \<open>
  \<open>formatDuration(seconds)\<close> of this endpoint; \<open>%\<close> is the remainder of the truncating
  division, which has the sign of the dividend.
\<close>

definition jsRemainder :: "int \<Rightarrow> int \<Rightarrow> int" where
  "jsRemainder a b = sgn a * (\<bar>a\<bar> mod \<bar>b\<bar>)"

definition formatDurationSeconds :: "int \<Rightarrow> jsstring" where
  "formatDurationSeconds seconds =
     (let hours = seconds div 3600;
          minutes = jsRemainder seconds 3600 div 60
      in if hours > 0 then showInt hours @ js ''h '' @ showInt minutes @ js ''min''
         else showInt minutes @ js ''min'')"

record MotisLeg =
  mode :: jsstring
  from_name :: jsstring
  from_departure :: jsstring
  to_name :: jsstring
  to_arrival :: jsstring

record MotisItinerary =
  it_duration :: int
  startTime :: jsstring
  endTime :: jsstring
  transfers :: int
  it_legs :: "MotisLeg list"

record station_view =
  von :: jsstring
  nach :: jsstring
  modus :: jsstring
  st_abfahrt :: jsstring
  st_ankunft :: jsstring

record connection =
  abfahrt :: jsstring
  ankunft :: jsstring
  dauer :: jsstring
  umstiege :: int
  verkehrsmittel :: "jsstring list"
  stationen :: "station_view list"

text \<open>
  The transformation of one itinerary. \<open>formatTime\<close> (the clock time of an ISO timestamp
  in the German locale) is a parameter. A \<open>Set\<close> keeps the first occurrence of each mode.
\<close>

definition toConnection :: "(jsstring \<Rightarrow> jsstring) \<Rightarrow> MotisItinerary \<Rightarrow> connection" where
  "toConnection formatTime it =
     \<lparr>abfahrt = formatTime (startTime it),
      ankunft = formatTime (endTime it),
      dauer = formatDurationSeconds (it_duration it),
      umstiege = transfers it,
      verkehrsmittel =
        rev (remdups (rev (map mode (filter (\<lambda>l. mode l \<noteq> js ''WALK'') (it_legs it))))),
      stationen =
        map (\<lambda>l. \<lparr>von = from_name l, nach = to_name l, modus = mode l,
                   st_abfahrt = formatTime (from_departure l),
                   st_ankunft = formatTime (to_arrival l)\<rparr>) (it_legs it)\<rparr>"

datatype connections_body =
    ConnectionsError jsstring
  | Connections jsstring jsstring jsstring int "connection list"

record connections_request =
  conn_from :: "jsstring option"
  conn_to :: "jsstring option"
  conn_date :: "jsstring option"
  conn_time :: "jsstring option"

text \<open>
  The request sent to the journey planner: \<open>fromPlace\<close>, \<open>toPlace\<close> and \<open>time\<close> of the
  URL \<open>MOTIS_BASE_URL/plan?fromPlace=...&toPlace=...&time=...&arriveBy=false\<close>.
\<close>

datatype motis_call = MotisPlan jsval jsval jsstring

definition errorMessage :: "js_error \<Rightarrow> jsstring" where
  "errorMessage e =
     (case e of
        Error m \<Rightarrow> m
      | TypeError m \<Rightarrow> m
      | SyntaxError m \<Rightarrow> m
      | Thrown \<Rightarrow> js ''Unbekannter Fehler'')"

text \<open>
  The handler. \<open>today\<close> is \<open>new Date().toISOString().split('T')[0]\<close>; the network is the
  parameter \<open>fetch\<close>, whose JSON data is the optional list \<open>itineraries\<close>. The result is
  the response and the list of the requests sent to the journey planner.
\<close>

definition GET_connections ::
  "jsstring \<Rightarrow> (jsstring \<Rightarrow> jsstring)
   \<Rightarrow> (motis_call \<Rightarrow> js_error + MotisItinerary list option fetched)
   \<Rightarrow> connections_request \<Rightarrow> connections_body response \<times> motis_call list" where
  "GET_connections today formatTime fetch req =
     (let date = orElse (conn_date req) today;
          time = orElse (conn_time req) (js ''10:00'')
      in
      if missing (conn_from req) \<or> missing (conn_to req) then
        (\<lparr>status = 400,
          body = ConnectionsError (js ''Parameter \"from\" und \"to\" sind erforderlich''),
          cacheControl = None\<rparr>, [])
      else
        let from' = the (conn_from req); to' = the (conn_to req);
            caught = (\<lambda>e calls.
              (\<lparr>status = 500, body = ConnectionsError (errorMessage e), cacheControl = None\<rparr>,
               calls))
        in
        case resolveLocation from' of
          Inl e \<Rightarrow> caught e []
        | Inr fromCoords \<Rightarrow>
            (case resolveLocation to' of
               Inl e \<Rightarrow> caught e []
             | Inr toCoords \<Rightarrow>
                 let dateTime = date @ js ''T'' @ time @ js '':00Z'';
                     motisUrl = MotisPlan fromCoords toCoords dateTime
                 in
                 case fetch motisUrl of
                   Inl e \<Rightarrow> caught e [motisUrl]
                 | Inr response \<Rightarrow>
                     if \<not> resp_ok response then
                       caught (Error (js ''MOTIS API Fehler: '' @ showNat (resp_status response)))
                         [motisUrl]
                     else
                       (case resp_json response of
                          Inl e \<Rightarrow> caught e [motisUrl]
                        | Inr itineraries \<Rightarrow>
                            let connections =
                                  (case itineraries of
                                     None \<Rightarrow> []
                                   | Some its \<Rightarrow> map (toConnection formatTime) (take 5 its))
                            in
                            (\<lparr>status = 200,
                              body = Connections from' to' date (int (length connections))
                                       connections,
                              cacheControl = None\<rparr>, [motisUrl]))))"

text \<open>
  An input that resolveLocation cannot resolve: it is no coordinate pair, and its
  lower-cased and trimmed form is neither a key of the city table nor the name of a
  member that the table object inherits.
\<close>

definition unresolvable :: "jsstring \<Rightarrow> bool" where
  "unresolvable s =
     (\<not> isCoordPair s \<and> map_of CITY_COORDS (trim (toLowerCase s)) = None
      \<and> trim (toLowerCase s) \<notin> set objectPrototypeNames)"

text \<open>The code units that can occur in a coordinate pair: digits, full stop, comma.\<close>

definition coordUnit :: "nat \<Rightarrow> bool" where
  "coordUnit c = (isDigit c \<or> c = 0x2E \<or> c = 0x2C)"

section \<open>Facts about the helper functions\<close>

lemma Math_round_div_60: "Math_round (of_int n / 60) = (n + 30) div 60"
  unfolding Math_round_def by linarith

lemma Math_round_div_60000: "Math_round (of_int n / (1000 * 60)) = (n + 30000) div 60000"
  unfolding Math_round_def by linarith

lemma round_div_60: "round (of_int n / (60::rat)) = (n + 30) div 60"
  unfolding round_def by linarith

lemma showNat_nonempty: "showNat n \<noteq> []"
  by (subst showNat.simps) simp

lemma showInt_nonempty: "showInt i \<noteq> []"
  by (simp add: showInt_def showNat_nonempty)

lemma showInt_0: "showInt 0 = js ''0''"
  by (simp add: showInt_def showNat.simps js_def)

text \<open>
  C5. The transfer count of a journey is the number of its legs that are not walking legs,
  minus one, and never below zero. The legs [walk, train, walk, train] give 1; a journey of
  walking legs only, or of no legs, gives 0.
\<close>

theorem getTransferCount_spec:
  "getTransferCount j =
     max 0 (int (card {i. i < length (legs j) \<and> walking (legs j ! i) \<noteq> Some True}) - 1)
   \<and> getTransferCount \<lparr>legs =
        [\<lparr>departure = d1, arrival = a1, walking = Some True\<rparr>,
         \<lparr>departure = d2, arrival = a2, walking = None\<rparr>,
         \<lparr>departure = d3, arrival = a3, walking = Some True\<rparr>,
         \<lparr>departure = d4, arrival = a4, walking = Some False\<rparr>]\<rparr> = 1
   \<and> ((\<forall>l \<in> set (legs j). walking l = Some True) \<longrightarrow> getTransferCount j = 0)"
proof (intro conjI impI)
  show "getTransferCount j =
     max 0 (int (card {i. i < length (legs j) \<and> walking (legs j ! i) \<noteq> Some True}) - 1)"
    by (simp add: getTransferCount_def length_filter_conv_card)
next
  show "getTransferCount \<lparr>legs =
        [\<lparr>departure = d1, arrival = a1, walking = Some True\<rparr>,
         \<lparr>departure = d2, arrival = a2, walking = None\<rparr>,
         \<lparr>departure = d3, arrival = a3, walking = Some True\<rparr>,
         \<lparr>departure = d4, arrival = a4, walking = Some False\<rparr>]\<rparr> = 1"
    by (simp add: getTransferCount_def)
next
  assume all: "\<forall>l \<in> set (legs j). walking l = Some True"
  then have "filter (\<lambda>l. walking l \<noteq> Some True) (legs j) = []"
    by (simp add: filter_empty_conv)
  then show "getTransferCount j = 0"
    by (simp add: getTransferCount_def)
qed

theorem getTransferCount_spec_witness:
  "getTransferCount \<lparr>legs = [\<lparr>departure = [], arrival = [], walking = Some True\<rparr>]\<rparr> = 0
   \<and> getTransferCount \<lparr>legs = []\<rparr> = 0"
proof -
  have a: "\<forall>l \<in> set (legs \<lparr>legs = [\<lparr>departure = [], arrival = [], walking = Some True\<rparr>]\<rparr>).
             walking l = Some True"
    by simp
  have b: "\<forall>l \<in> set (legs \<lparr>legs = ([] :: Leg list)\<rparr>). walking l = Some True"
    by simp
  from getTransferCount_spec [of "\<lparr>legs = [\<lparr>departure = [], arrival = [], walking = Some True\<rparr>]\<rparr>"] a
       getTransferCount_spec [of "\<lparr>legs = []\<rparr>"] b
  show ?thesis by blast
qed

text \<open>
  C9. formatDelay gives the empty string for 0, null and undefined only. A delay other than
  0 that rounds to 0 minutes (20 or -20 seconds, say) gives "0 min". In general the result
  is the delay rounded to whole minutes, followed by " min", with a leading "+" exactly
  when the rounded value is positive.
\<close>

theorem formatDelay_spec:
  "(formatDelay d = [] \<longleftrightarrow> d = Null \<or> d = Undefined \<or> d = Val 0)
   \<and> (n \<noteq> 0 \<and> round (of_int n / (60::rat)) = 0 \<longrightarrow> formatDelay (Val n) = js ''0 min'')
   \<and> (n \<noteq> 0 \<longrightarrow>
        formatDelay (Val n) =
          (if 0 < round (of_int n / (60::rat)) then js ''+'' else [])
          @ showInt (round (of_int n / (60::rat))) @ js '' min'')
   \<and> formatDelay (Val 20) = js ''0 min''
   \<and> formatDelay (Val (- 20)) = js ''0 min''"
proof (intro conjI impI)
  show "formatDelay d = [] \<longleftrightarrow> d = Null \<or> d = Undefined \<or> d = Val 0"
    by (cases d) (simp_all add: formatDelay_def Let_def showInt_nonempty js_def)
next
  assume "n \<noteq> 0 \<and> round (of_int n / (60::rat)) = 0"
  then have "n \<noteq> 0" and "(n + 30) div 60 = 0"
    by (simp_all add: round_div_60)
  then show "formatDelay (Val n) = js ''0 min''"
    by (simp add: formatDelay_def Math_round_div_60 showInt_0 js_def)
next
  assume "n \<noteq> 0"
  then show "formatDelay (Val n) =
          (if 0 < round (of_int n / (60::rat)) then js ''+'' else [])
          @ showInt (round (of_int n / (60::rat))) @ js '' min''"
    by (simp add: formatDelay_def Let_def Math_round_div_60 round_div_60)
next
  show "formatDelay (Val 20) = js ''0 min''"
    using Math_round_div_60 [of 20] by (simp add: formatDelay_def showInt_0 js_def)
next
  show "formatDelay (Val (- 20)) = js ''0 min''"
    using Math_round_div_60 [of "- 20"] by (simp add: formatDelay_def showInt_0 js_def)
qed

theorem formatDelay_spec_witness:
  "formatDelay (Val 120) = js ''+2 min''
   \<and> formatDelay (Val (- 60)) = js ''-1 min''
   \<and> formatDelay (Val (- 30)) = js ''0 min''
   \<and> formatDelay (Val 30) = js ''+1 min''
   \<and> formatDelay (Val 0) = []"
proof -
  have r: "round (120 / (60::rat)) = 2" "round (- 60 / (60::rat)) = - 1"
          "round (- 30 / (60::rat)) = 0" "round (30 / (60::rat)) = 1"
    using round_div_60 [of 120] round_div_60 [of "- 60"] round_div_60 [of "- 30"]
      round_div_60 [of 30]
    by simp_all
  have s: "showInt 2 = js ''2''" "showInt (- 1) = js ''-1''" "showInt 1 = js ''1''"
    by (simp_all add: showInt_def showNat.simps js_def)
  from formatDelay_spec [of "Val 0" 120] formatDelay_spec [of "Val 0" "- 60"]
       formatDelay_spec [of "Val 0" "- 30"] formatDelay_spec [of "Val 0" 30] r s
  show ?thesis by (simp add: js_def)
qed

text \<open>
  C10. getJourneyDuration returns a number for every journey and never throws: for a
  journey without legs it returns 0 and reads no element; for a journey with legs it
  returns the last leg's arrival minus the first leg's departure, in minutes, rounded to
  a whole number (NaN when one of the two timestamps is not a date).
\<close>

theorem getJourneyDuration_total:
  "(\<exists>r. getJourneyDuration getTime j = Inr r)
   \<and> (legs j = [] \<longrightarrow> getJourneyDuration getTime j = Inr (Some 0))
   \<and> (legs j \<noteq> [] \<longrightarrow> getTime (departure (hd (legs j))) = Some s
        \<longrightarrow> getTime (arrival (last (legs j))) = Some e
        \<longrightarrow> getJourneyDuration getTime j = Inr (Some (round (of_int (e - s) / (60000::rat)))))
   \<and> (legs j \<noteq> [] \<longrightarrow>
        getTime (departure (hd (legs j))) = None \<or> getTime (arrival (last (legs j))) = None
        \<longrightarrow> getJourneyDuration getTime j = Inr None)"
proof -
  have first: "legs j \<noteq> [] \<Longrightarrow> element (legs j) 0 = Some (hd (legs j))"
    by (simp add: element_def hd_conv_nth)
  have "legs j \<noteq> [] \<Longrightarrow> nat (int (length (legs j)) - 1) = length (legs j) - 1"
    by (cases "legs j") simp_all
  then have final: "legs j \<noteq> [] \<Longrightarrow>
      element (legs j) (int (length (legs j)) - 1) = Some (last (legs j))"
    by (simp add: element_def last_conv_nth)
  have rnd: "\<And>x. Math_round x = round x"
    by (simp add: round_def Math_round_def)
  show ?thesis
  proof (cases "legs j = []")
    case True
    then show ?thesis by (simp add: getJourneyDuration_def)
  next
    case False
    then show ?thesis
      using first final
      by (auto simp: getJourneyDuration_def rnd split: option.splits)
  qed
qed

theorem getJourneyDuration_total_witness:
  "getJourneyDuration (\<lambda>t. if t = js ''a'' then Some 0 else if t = js ''b'' then Some 5430000 else None)
     \<lparr>legs = [\<lparr>departure = js ''a'', arrival = js ''x'', walking = None\<rparr>,
              \<lparr>departure = js ''y'', arrival = js ''b'', walking = None\<rparr>]\<rparr> = Inr (Some 91)
   \<and> getJourneyDuration (\<lambda>t. None) \<lparr>legs = []\<rparr> = Inr (Some 0)
   \<and> getJourneyDuration (\<lambda>t. None)
       \<lparr>legs = [\<lparr>departure = js ''a'', arrival = js ''x'', walking = None\<rparr>]\<rparr> = Inr None"
proof -
  have r: "round (of_int (5430000 - 0) / (60000::rat)) = 91"
    unfolding round_def by simp
  from getJourneyDuration_total
         [of "\<lambda>t. if t = js ''a'' then Some 0 else if t = js ''b'' then Some 5430000 else None"
             "\<lparr>legs = [\<lparr>departure = js ''a'', arrival = js ''x'', walking = None\<rparr>,
                       \<lparr>departure = js ''y'', arrival = js ''b'', walking = None\<rparr>]\<rparr>"
             0 5430000]
       getJourneyDuration_total [of "\<lambda>t. None" "\<lparr>legs = []\<rparr>"]
       getJourneyDuration_total [of "\<lambda>t. None"
          "\<lparr>legs = [\<lparr>departure = js ''a'', arrival = js ''x'', walking = None\<rparr>]\<rparr>"]
       r
  show ?thesis by (simp add: js_def)
qed

section \<open>Facts about the flight client\<close>

lemmas airport_eval =
  getAirportCode_def getProperty_def GERMAN_AIRPORTS_def objectPrototypeNames_def js_def
  toLowerCase_def toUpperCase_def lowerUnit_def upperUnit_def str_includes_def sublist_code
  isIataPattern_def isUpperAZ_def

lemma partialMatch_in_table: "partialMatch t n = Some c \<Longrightarrow> c \<in> snd ` set t"
  by (induction t n rule: partialMatch.induct) (auto split: if_splits)

lemma GERMAN_AIRPORTS_codes: "c \<in> snd ` set GERMAN_AIRPORTS \<Longrightarrow> isIataPattern c"
  by (auto simp: GERMAN_AIRPORTS_def js_def isIataPattern_def isUpperAZ_def)

lemma isIataPattern_nonempty: "isIataPattern c \<Longrightarrow> c \<noteq> []"
  by (auto simp: isIataPattern_def)

text \<open>
  Whenever getAirportCode returns a string, the string is three upper-case ASCII letters.
\<close>

lemma getAirportCode_string_is_code:
  assumes "getAirportCode city = Some (JSString c)"
  shows "isIataPattern c"
proof (cases "truthy (getProperty GERMAN_AIRPORTS city)")
  case True
  with assms have "getProperty GERMAN_AIRPORTS city = Some (JSString c)"
    by (simp add: getAirportCode_def)
  then have "map_of GERMAN_AIRPORTS city = Some c"
    by (auto simp: getProperty_def split: option.splits if_splits)
  then have "c \<in> snd ` set GERMAN_AIRPORTS"
    by (force dest: map_of_SomeD)
  then show ?thesis by (rule GERMAN_AIRPORTS_codes)
next
  case False
  show ?thesis
  proof (cases "partialMatch GERMAN_AIRPORTS (toLowerCase city)")
    case None
    with False assms show ?thesis
      by (auto simp: getAirportCode_def split: if_splits)
  next
    case (Some code)
    with False assms have "code = c" by (simp add: getAirportCode_def)
    with Some show ?thesis
      by (auto dest!: partialMatch_in_table intro: GERMAN_AIRPORTS_codes)
  qed
qed

lemma getAirportCode_truthy: "getAirportCode city = Some v \<Longrightarrow> truthy (getAirportCode city)"
  by (cases v) (auto dest: getAirportCode_string_is_code isIataPattern_nonempty)

text \<open>
  For an input that is not the name of an inherited member, getAirportCode follows the
  order exact match, substring match, literal code, absent; and the four examples of the
  specification evaluate as stated.
\<close>

lemma getAirportCode_order:
  assumes "city \<notin> set objectPrototypeNames"
  shows "getAirportCode city =
           (case map_of GERMAN_AIRPORTS city of
              Some code \<Rightarrow> Some (JSString code)
            | None \<Rightarrow>
                (case partialMatch GERMAN_AIRPORTS (toLowerCase city) of
                   Some code \<Rightarrow> Some (JSString code)
                 | None \<Rightarrow>
                     if isIataPattern (toUpperCase city) then Some (JSString (toUpperCase city))
                     else None))"
proof (cases "map_of GERMAN_AIRPORTS city")
  case None
  with assms show ?thesis
    by (simp add: getAirportCode_def getProperty_def)
next
  case (Some code)
  then have "code \<in> snd ` set GERMAN_AIRPORTS"
    by (force dest: map_of_SomeD)
  then have "code \<noteq> []"
    by (intro isIataPattern_nonempty GERMAN_AIRPORTS_codes)
  with Some show ?thesis
    by (simp add: getAirportCode_def getProperty_def)
qed

lemma getAirportCode_examples:
  "getAirportCode (js ''muc'') = Some (JSString (js ''MUC''))"
  "getAirportCode (js ''M'' @ [0xFC] @ js ''nchen'') = Some (JSString (js ''MUC''))"
  "getAirportCode (js ''XYZ'') = Some (JSString (js ''XYZ''))"
  "getAirportCode (js ''Nonexistentcity'') = None"
  by (simp_all add: airport_eval)

text \<open>
  C3. getAirportCode is specified to try an exact match against the airport table, then a
  substring match in either direction, then a three-letter input as a literal code, and
  to be absent otherwise. The input "constructor" is no key of the table, matches no key
  as a substring in either direction and is no three-letter token, yet getAirportCode
  returns a value for it: the member that the table object inherits under that name.
\<close>

theorem getAirportCode_constructor:
  "map_of GERMAN_AIRPORTS (js ''constructor'') = None
   \<and> partialMatch GERMAN_AIRPORTS (toLowerCase (js ''constructor'')) = None
   \<and> \<not> isIataPattern (toUpperCase (js ''constructor''))
   \<and> getAirportCode (js ''constructor'') = Some (JSInherited (js ''constructor''))"
  by (simp add: airport_eval)

text \<open>
  C8. Every value that getAirportCode returns is specified to be three upper-case ASCII
  letters. For the input "toString" it returns the inherited member of that name, which
  is not a string at all.
\<close>

theorem getAirportCode_toString:
  "getAirportCode (js ''toString'') = Some (JSInherited (js ''toString''))
   \<and> getAirportCode (js ''toString'') \<noteq> Some (JSString (toUpperCase (js ''toString'')))"
  by (simp add: airport_eval)

section \<open>Facts about the flight search endpoint\<close>

text \<open>
  C6. Without the provider's credentials, a request that has a date and whose from and to
  resolve to an airport is answered with status 200 and the mock document: the flag mock
  is true and there are exactly three offers, with 0, 1 and 0 stops in this order. The
  provider is not called.
\<close>

theorem GET_flights_search_mock:
  assumes "param_from req = Some f" and "f \<noteq> []" and "getAirportCode f = Some a"
    and "param_to req = Some t" and "t \<noteq> []" and "getAirportCode t = Some b"
    and "param_date req = Some d" and "d \<noteq> []"
  shows "\<exists>fl msg.
           GET_flights_search False rnd searchFlights transformFlightOffer req =
             (\<lparr>status = 200, body = MockFlights fl True msg, cacheControl = None\<rparr>, [])
           \<and> length fl = 3 \<and> map stops fl = [0, 1, 0]"
proof -
  have "truthy (getAirportCode f)" and "truthy (getAirportCode t)"
    by (rule getAirportCode_truthy [OF assms(3)], rule getAirportCode_truthy [OF assms(6)])
  then show ?thesis
    using assms by (simp add: GET_flights_search_def missing_def getMockFlights_def Let_def)
qed

theorem GET_flights_search_mock_witness:
  "\<exists>fl msg.
     GET_flights_search False 17 (\<lambda>opts. Inr []) (\<lambda>offer :: unit. Inr ())
       \<lparr>param_from = Some (js ''FRA''), param_to = Some (js ''MUC''),
        param_date = Some (js ''2026-03-01''), param_return = None, param_adults = Some 1,
        param_class = None\<rparr> =
       (\<lparr>status = 200, body = MockFlights fl True msg, cacheControl = None\<rparr>, [])
     \<and> length fl = 3 \<and> map stops fl = [0, 1, 0]"
proof -
  have f: "getAirportCode (js ''FRA'') = Some (JSString (js ''FRA''))"
    by (simp add: airport_eval)
  have t: "getAirportCode (js ''MUC'') = Some (JSString (js ''MUC''))"
    by (simp add: airport_eval)
  have n: "js ''FRA'' \<noteq> []" "js ''MUC'' \<noteq> []" "js ''2026-03-01'' \<noteq> []"
    by (simp_all add: js_def)
  show ?thesis
    by (rule GET_flights_search_mock [OF _ n(1) f _ n(2) t _ n(3)]) simp_all
qed

section \<open>Facts about the connections endpoint and the two lookups\<close>

lemmas string_eval = js_def toLowerCase_def toUpperCase_def lowerUnit_def upperUnit_def
  trim_def isWhiteSpace_def isDigit_def

lemmas location_eval = resolveLocation_def isCoordPair_def digits_def getProperty_def
  CITY_COORDS_def objectPrototypeNames_def string_eval

lemma CITY_COORDS_values: "(k, v) \<in> set CITY_COORDS \<Longrightarrow> v \<noteq> []"
  by (auto simp: CITY_COORDS_def js_def)

lemma resolveLocation_unresolvable:
  "unresolvable s \<Longrightarrow>
     resolveLocation s = Inl (Error (js ''Unbekannte Stadt: '' @ s @ js ''. Bitte Koordinaten angeben.''))"
  by (simp add: unresolvable_def resolveLocation_def getProperty_def)

lemma resolveLocation_resolvable:
  assumes "\<not> unresolvable s"
  shows "\<exists>v. resolveLocation s = Inr v"
proof (cases "isCoordPair s")
  case True
  then show ?thesis by (simp add: resolveLocation_def)
next
  case False
  show ?thesis
  proof (cases "map_of CITY_COORDS (trim (toLowerCase s))")
    case None
    with False assms show ?thesis
      by (simp add: unresolvable_def resolveLocation_def getProperty_def)
  next
    case (Some v)
    then have "v \<noteq> []" by (auto dest: map_of_SomeD CITY_COORDS_values)
    with Some show ?thesis
      by (simp add: resolveLocation_def getProperty_def Let_def)
  qed
qed

subsection \<open>Case and white space\<close>

lemma lowerUnit_whitespace: "isWhiteSpace c \<Longrightarrow> lowerUnit c = c"
  by (auto simp: isWhiteSpace_def lowerUnit_def)

lemma toLowerCase_whitespace: "list_all isWhiteSpace ws \<Longrightarrow> toLowerCase ws = ws"
  by (induction ws) (simp_all add: toLowerCase_def lowerUnit_whitespace)

lemma toLowerCase_append: "toLowerCase (a @ b) = toLowerCase a @ toLowerCase b"
  by (simp add: toLowerCase_def)

lemma toLowerCase_padded:
  "list_all isWhiteSpace ws1 \<Longrightarrow> list_all isWhiteSpace ws2 \<Longrightarrow>
     toLowerCase (ws1 @ t @ ws2) = ws1 @ toLowerCase t @ ws2"
  by (simp add: toLowerCase_append toLowerCase_whitespace)

lemma dropWhile_unpadded:
  "k \<noteq> [] \<Longrightarrow> \<not> P (hd k) \<Longrightarrow> list_all P ws \<Longrightarrow> dropWhile P (ws @ k @ r) = k @ r"
  by (cases k) (simp_all add: list_all_iff)

lemma trim_padded:
  assumes "list_all isWhiteSpace ws1" and "list_all isWhiteSpace ws2"
    and "k \<noteq> []" and "\<not> isWhiteSpace (hd k)" and "\<not> isWhiteSpace (last k)"
  shows "trim (ws1 @ k @ ws2) = k"
proof -
  have "dropWhile isWhiteSpace (ws1 @ k @ ws2) = k @ ws2"
    using assms by (simp add: dropWhile_unpadded)
  moreover have "dropWhile isWhiteSpace (rev ws2 @ rev k @ []) = rev k @ []"
    using assms by (intro dropWhile_unpadded) (simp_all add: hd_rev list_all_iff)
  ultimately show ?thesis by (simp add: trim_def)
qed

subsection \<open>Substrings and white space\<close>

lemma sublist_drop_left_pad:
  "sublist k (ws @ m) \<Longrightarrow> list_all P ws \<Longrightarrow> \<forall>c \<in> set k. \<not> P c \<Longrightarrow> sublist k m"
proof (induction ws)
  case Nil
  then show ?case by simp
next
  case (Cons w ws)
  from Cons.prems(1) have "prefix k (w # ws @ m) \<or> sublist k (ws @ m)"
    by (simp add: sublist_Cons_right)
  then show ?case
  proof
    assume "prefix k (w # ws @ m)"
    with Cons.prems(2,3) have "k = []" by (cases k) auto
    then show ?thesis by simp
  next
    assume "sublist k (ws @ m)"
    with Cons show ?thesis by simp
  qed
qed

lemma sublist_drop_pad:
  assumes "sublist k (ws1 @ m @ ws2)" and "list_all P ws1" and "list_all P ws2"
    and "\<forall>c \<in> set k. \<not> P c"
  shows "sublist k m"
proof -
  from assms(1,2,4) have "sublist k (m @ ws2)" by (rule sublist_drop_left_pad)
  then have "sublist (rev k) (rev ws2 @ rev m)" by (metis rev_append sublist_rev)
  moreover have "list_all P (rev ws2)" and "\<forall>c \<in> set (rev k). \<not> P c"
    using assms(3,4) by (simp_all add: list_all_iff)
  ultimately have "sublist (rev k) (rev m)"
    by (rule sublist_drop_left_pad)
  then show ?thesis by simp
qed

subsection \<open>The coordinate pattern\<close>

lemma digits_Some: "digits s = Some r \<Longrightarrow> \<exists>d. s = d @ r \<and> list_all isDigit d"
  unfolding digits_def
  by (metis list_all_iff option.inject option.simps(3) set_takeWhileD takeWhile_dropWhile_id)

lemma literal_Some: "literal c s = Some r \<Longrightarrow> s = c # r"
  by (cases s) (auto split: if_splits)

lemma isCoordPair_units:
  assumes "isCoordPair s"
  shows "list_all coordUnit s"
proof -
  from assms obtain r1 r2 r3 r4 r5 r6 where
    "digits s = Some r1" "literal 0x2E r1 = Some r2" "digits r2 = Some r3"
    "literal 0x2C r3 = Some r4" "digits r4 = Some r5" "literal 0x2E r5 = Some r6"
    "digits r6 = Some []"
    unfolding isCoordPair_def by (auto simp: bind_eq_Some_conv)
  note r = this
  obtain d1 where d1: "s = d1 @ r1" "list_all isDigit d1" using digits_Some [OF r(1)] by blast
  have r1: "r1 = 0x2E # r2" using literal_Some [OF r(2)] .
  obtain d2 where d2: "r2 = d2 @ r3" "list_all isDigit d2" using digits_Some [OF r(3)] by blast
  have r3: "r3 = 0x2C # r4" using literal_Some [OF r(4)] .
  obtain d3 where d3: "r4 = d3 @ r5" "list_all isDigit d3" using digits_Some [OF r(5)] by blast
  have r5: "r5 = 0x2E # r6" using literal_Some [OF r(6)] .
  obtain d4 where d4: "r6 = d4 @ []" "list_all isDigit d4" using digits_Some [OF r(7)] by blast
  have "s = d1 @ 0x2E # d2 @ 0x2C # d3 @ 0x2E # d4"
    using d1(1) r1 d2(1) r3 d3(1) r5 d4(1) by simp
  then show ?thesis
    using d1(2) d2(2) d3(2) d4(2) by (auto simp: coordUnit_def list_all_iff)
qed

lemma lowerUnit_coordUnit: "coordUnit c \<Longrightarrow> lowerUnit c = c"
  by (auto simp: coordUnit_def isDigit_def lowerUnit_def)

lemma toLowerCase_coordUnits: "list_all coordUnit s \<Longrightarrow> toLowerCase s = s"
  by (induction s) (simp_all add: toLowerCase_def lowerUnit_coordUnit)

subsection \<open>Facts about the two tables\<close>

lemma CITY_COORDS_distinct: "distinct (map fst CITY_COORDS)"
  by (simp add: CITY_COORDS_def js_def)

lemma CITY_COORDS_keys_all:
  "list_all (\<lambda>(k, v). k \<noteq> [] \<and> \<not> isWhiteSpace (hd k) \<and> \<not> isWhiteSpace (last k)
      \<and> toLowerCase k = k \<and> \<not> list_all coordUnit k) CITY_COORDS"
  by (simp add: CITY_COORDS_def js_def toLowerCase_def lowerUnit_def isWhiteSpace_def
      coordUnit_def isDigit_def)

lemma CITY_COORDS_keys:
  assumes "(k, v) \<in> set CITY_COORDS"
  shows "k \<noteq> []" and "\<not> isWhiteSpace (hd k)" and "\<not> isWhiteSpace (last k)"
    and "toLowerCase k = k" and "\<not> list_all coordUnit k"
  using assms CITY_COORDS_keys_all unfolding list_all_iff [of _ CITY_COORDS] by blast+

lemma GERMAN_AIRPORTS_no_whitespace_all:
  "list_all (\<lambda>(n, c). list_all (\<lambda>u. \<not> isWhiteSpace u) (toLowerCase n)) GERMAN_AIRPORTS"
  by (simp add: GERMAN_AIRPORTS_def js_def toLowerCase_def lowerUnit_def isWhiteSpace_def)

lemma GERMAN_AIRPORTS_no_whitespace:
  "(name, code) \<in> set GERMAN_AIRPORTS \<Longrightarrow> c \<in> set (toLowerCase name) \<Longrightarrow> \<not> isWhiteSpace c"
  using GERMAN_AIRPORTS_no_whitespace_all unfolding list_all_iff by blast

lemma GERMAN_AIRPORTS_unrelated_all:
  "list_all (\<lambda>x. list_all (\<lambda>y.
      sublist (toLowerCase (fst x)) (toLowerCase (fst y)) \<longrightarrow> snd x = snd y)
        GERMAN_AIRPORTS) GERMAN_AIRPORTS"
  by code_simp

lemma GERMAN_AIRPORTS_unrelated:
  assumes "(n1, c1) \<in> set GERMAN_AIRPORTS" and "(n2, c2) \<in> set GERMAN_AIRPORTS"
    and "sublist (toLowerCase n1) (toLowerCase n2)"
  shows "c1 = c2"
proof -
  have "\<forall>x \<in> set GERMAN_AIRPORTS. \<forall>y \<in> set GERMAN_AIRPORTS.
          sublist (toLowerCase (fst x)) (toLowerCase (fst y)) \<longrightarrow> snd x = snd y"
    using GERMAN_AIRPORTS_unrelated_all by (simp only: list_all_iff)
  from this assms(1,2) have
    "sublist (toLowerCase (fst (n1, c1))) (toLowerCase (fst (n2, c2)))
       \<longrightarrow> snd (n1, c1) = snd (n2, c2)"
    by blast
  with assms(3) show ?thesis by simp
qed

lemma prototype_names_unrelated_all:
  "list_all (\<lambda>p. list_all (\<lambda>x. \<not> sublist (toLowerCase (fst x)) (toLowerCase p))
      GERMAN_AIRPORTS) objectPrototypeNames"
  by code_simp

lemma prototype_names_unrelated:
  assumes "p \<in> set objectPrototypeNames" and "(n, c) \<in> set GERMAN_AIRPORTS"
  shows "\<not> sublist (toLowerCase n) (toLowerCase p)"
proof -
  have "\<forall>p \<in> set objectPrototypeNames. \<forall>x \<in> set GERMAN_AIRPORTS.
          \<not> sublist (toLowerCase (fst x)) (toLowerCase p)"
    using prototype_names_unrelated_all by (simp only: list_all_iff)
  from this assms have "\<not> sublist (toLowerCase (fst (n, c))) (toLowerCase p)"
    by blast
  then show ?thesis by simp
qed

subsection \<open>The loop of getAirportCode\<close>

lemma partialMatch_unique:
  assumes "(name, code) \<in> set tbl"
    and "str_includes (toLowerCase name) n \<or> str_includes n (toLowerCase name)"
    and "\<forall>entry \<in> set tbl.
            str_includes (toLowerCase (fst entry)) n \<or> str_includes n (toLowerCase (fst entry))
            \<longrightarrow> snd entry = code"
  shows "partialMatch tbl n = Some code"
  using assms
proof (induction tbl)
  case Nil
  then show ?case by simp
next
  case (Cons entry rest)
  obtain name' code' where entry: "entry = (name', code')" by (cases entry)
  show ?case
  proof (cases "str_includes (toLowerCase name') n \<or> str_includes n (toLowerCase name')")
    case True
    with Cons.prems(3) entry have "code' = code" by force
    with True entry show ?thesis by simp
  next
    case False
    with Cons.prems(1,2) entry have "(name, code) \<in> set rest" by auto
    moreover from Cons.prems(3) have "\<forall>entry \<in> set rest.
            str_includes (toLowerCase (fst entry)) n \<or> str_includes n (toLowerCase (fst entry))
            \<longrightarrow> snd entry = code" by simp
    ultimately have "partialMatch rest n = Some code"
      using Cons.IH Cons.prems(2) by blast
    with False entry show ?thesis by simp
  qed
qed

subsection \<open>Inputs in any letter case, with white space around them\<close>

lemma getAirportCode_padded:
  assumes ws: "list_all isWhiteSpace ws1" "list_all isWhiteSpace ws2"
    and t: "toLowerCase t = toLowerCase name"
    and entry: "(name, code) \<in> set GERMAN_AIRPORTS"
  shows "getAirportCode (ws1 @ t @ ws2) = Some (JSString code)"
proof -
  define x where "x = ws1 @ t @ ws2"
  define m where "m = toLowerCase name"
  define n where "n = toLowerCase x"
  have n: "n = ws1 @ m @ ws2"
    unfolding n_def x_def m_def using ws t by (simp add: toLowerCase_padded)
  have inside: "sublist m n"
    unfolding n by (rule sublist_appendI)
  have only: "code' = code"
    if mem: "(name', code') \<in> set GERMAN_AIRPORTS"
      and hit: "str_includes (toLowerCase name') n \<or> str_includes n (toLowerCase name')"
    for name' code'
  proof -
    from hit have "sublist n (toLowerCase name') \<or> sublist (toLowerCase name') n"
      unfolding str_includes_def by blast
    then have "sublist m (toLowerCase name') \<or> sublist (toLowerCase name') m"
    proof
      assume "sublist n (toLowerCase name')"
      with inside have "sublist m (toLowerCase name')"
        by (rule sublist_order.order_trans)
      then show ?thesis ..
    next
      assume "sublist (toLowerCase name') n"
      then have padded: "sublist (toLowerCase name') (ws1 @ m @ ws2)" unfolding n .
      have clean: "\<forall>c \<in> set (toLowerCase name'). \<not> isWhiteSpace c"
        using GERMAN_AIRPORTS_no_whitespace [OF mem] by blast
      have "sublist (toLowerCase name') m"
        by (rule sublist_drop_pad [OF padded ws clean])
      then show ?thesis ..
    qed
    then show ?thesis
    proof
      assume "sublist m (toLowerCase name')"
      then show ?thesis
        unfolding m_def using GERMAN_AIRPORTS_unrelated [OF entry mem] by blast
    next
      assume "sublist (toLowerCase name') m"
      then show ?thesis
        unfolding m_def using GERMAN_AIRPORTS_unrelated [OF mem entry] by blast
    qed
  qed
  have loop: "partialMatch GERMAN_AIRPORTS n = Some code"
  proof (rule partialMatch_unique [OF entry])
    show "str_includes (toLowerCase name) n \<or> str_includes n (toLowerCase name)"
      using inside unfolding str_includes_def m_def by blast
    show "\<forall>entry \<in> set GERMAN_AIRPORTS.
            str_includes (toLowerCase (fst entry)) n \<or> str_includes n (toLowerCase (fst entry))
            \<longrightarrow> snd entry = code"
    proof (intro ballI impI)
      fix e
      assume "e \<in> set GERMAN_AIRPORTS"
        and "str_includes (toLowerCase (fst e)) n \<or> str_includes n (toLowerCase (fst e))"
      then show "snd e = code"
        using only [of "fst e" "snd e"] by simp
    qed
  qed
  show ?thesis
  proof (cases "map_of GERMAN_AIRPORTS x")
    case (Some code')
    then have mem: "(x, code') \<in> set GERMAN_AIRPORTS" by (rule map_of_SomeD)
    have "str_includes (toLowerCase x) n \<or> str_includes n (toLowerCase x)"
      unfolding n_def str_includes_def by simp
    with mem have "code' = code" by (rule only)
    moreover have "code' \<in> snd ` set GERMAN_AIRPORTS"
      using mem by force
    then have "code' \<noteq> []"
      by (intro isIataPattern_nonempty GERMAN_AIRPORTS_codes)
    ultimately have "getAirportCode x = Some (JSString code)"
      using Some by (simp add: getAirportCode_def getProperty_def)
    then show ?thesis unfolding x_def .
  next
    case None
    have "x \<notin> set objectPrototypeNames"
    proof
      assume "x \<in> set objectPrototypeNames"
      then have "\<not> sublist (toLowerCase name) (toLowerCase x)"
        using entry by (rule prototype_names_unrelated)
      with inside show False unfolding m_def n_def by simp
    qed
    with None loop have "getAirportCode x = Some (JSString code)"
      unfolding n_def by (simp add: getAirportCode_def getProperty_def)
    then show ?thesis unfolding x_def .
  qed
qed

lemma resolveLocation_padded:
  assumes ws: "list_all isWhiteSpace ws1" "list_all isWhiteSpace ws2"
    and t: "toLowerCase t = key"
    and entry: "(key, coords) \<in> set CITY_COORDS"
  shows "resolveLocation (ws1 @ t @ ws2) = Inr (JSString coords)"
proof -
  define x where "x = ws1 @ t @ ws2"
  note k = CITY_COORDS_keys [OF entry]
  have "toLowerCase x = ws1 @ key @ ws2"
    unfolding x_def using ws t by (simp add: toLowerCase_padded)
  then have normalized: "trim (toLowerCase x) = key"
    using ws k(1-3) by (simp add: trim_padded)
  have no_pair: "\<not> isCoordPair x"
  proof
    assume "isCoordPair x"
    then have "list_all coordUnit x" by (rule isCoordPair_units)
    then have u: "list_all coordUnit t" unfolding x_def by simp
    then have "toLowerCase t = t" by (rule toLowerCase_coordUnits)
    with t have "t = key" by simp
    with u k(5) show False by simp
  qed
  have "map_of CITY_COORDS key = Some coords"
    using CITY_COORDS_distinct entry by (rule map_of_is_SomeI)
  moreover have "coords \<noteq> []" using entry by (rule CITY_COORDS_values)
  ultimately have "resolveLocation x = Inr (JSString coords)"
    using no_pair normalized by (simp add: resolveLocation_def getProperty_def Let_def)
  then show ?thesis unfolding x_def .
qed

subsection \<open>City names without an airport entry\<close>

lemma CITY_COORDS_other_keys_all:
  "list_all (\<lambda>x.
      fst x \<in> toLowerCase ` fst ` set GERMAN_AIRPORTS
      \<or> (list_all (\<lambda>y. \<not> sublist (fst x) (toLowerCase (fst y))
                        \<and> \<not> sublist (toLowerCase (fst y)) (fst x)) GERMAN_AIRPORTS
         \<and> list_all (\<lambda>p. \<not> sublist (fst x) (toLowerCase p)) objectPrototypeNames
         \<and> 3 < length (fst x))) CITY_COORDS"
  by code_simp

lemma CITY_COORDS_other_keys:
  assumes "(key, coords) \<in> set CITY_COORDS"
    and "key \<notin> toLowerCase ` fst ` set GERMAN_AIRPORTS"
  shows "(name, code) \<in> set GERMAN_AIRPORTS \<Longrightarrow> \<not> sublist key (toLowerCase name)"
    and "(name, code) \<in> set GERMAN_AIRPORTS \<Longrightarrow> \<not> sublist (toLowerCase name) key"
    and "p \<in> set objectPrototypeNames \<Longrightarrow> \<not> sublist key (toLowerCase p)"
    and "3 < length key"
proof -
  have "\<forall>x \<in> set CITY_COORDS.
      fst x \<in> toLowerCase ` fst ` set GERMAN_AIRPORTS
      \<or> ((\<forall>y \<in> set GERMAN_AIRPORTS. \<not> sublist (fst x) (toLowerCase (fst y))
                        \<and> \<not> sublist (toLowerCase (fst y)) (fst x))
         \<and> (\<forall>p \<in> set objectPrototypeNames. \<not> sublist (fst x) (toLowerCase p))
         \<and> 3 < length (fst x))"
    using CITY_COORDS_other_keys_all by (simp only: list_all_iff)
  from this assms(1) have
    "fst (key, coords) \<in> toLowerCase ` fst ` set GERMAN_AIRPORTS
      \<or> ((\<forall>y \<in> set GERMAN_AIRPORTS. \<not> sublist (fst (key, coords)) (toLowerCase (fst y))
                        \<and> \<not> sublist (toLowerCase (fst y)) (fst (key, coords)))
         \<and> (\<forall>p \<in> set objectPrototypeNames. \<not> sublist (fst (key, coords)) (toLowerCase p))
         \<and> 3 < length (fst (key, coords)))"
    by (rule bspec)
  with assms(2) have *:
    "\<forall>y \<in> set GERMAN_AIRPORTS. \<not> sublist key (toLowerCase (fst y))
                        \<and> \<not> sublist (toLowerCase (fst y)) key"
    "\<forall>p \<in> set objectPrototypeNames. \<not> sublist key (toLowerCase p)"
    "3 < length key"
    by simp_all
  show "(name, code) \<in> set GERMAN_AIRPORTS \<Longrightarrow> \<not> sublist key (toLowerCase name)"
    using *(1) by force
  show "(name, code) \<in> set GERMAN_AIRPORTS \<Longrightarrow> \<not> sublist (toLowerCase name) key"
    using *(1) by force
  show "p \<in> set objectPrototypeNames \<Longrightarrow> \<not> sublist key (toLowerCase p)"
    using *(2) by blast
  show "3 < length key" by (rule *(3))
qed

lemma partialMatch_none:
  assumes "\<forall>entry \<in> set tbl.
            \<not> str_includes (toLowerCase (fst entry)) n \<and> \<not> str_includes n (toLowerCase (fst entry))"
  shows "partialMatch tbl n = None"
  using assms
proof (induction tbl)
  case Nil
  then show ?case by simp
next
  case (Cons entry rest)
  obtain name' code' where entry: "entry = (name', code')" by (cases entry)
  from Cons.prems have "partialMatch rest n = None"
    by (intro Cons.IH) simp
  moreover from Cons.prems entry have
    "\<not> str_includes (toLowerCase name') n" "\<not> str_includes n (toLowerCase name')"
    by simp_all
  ultimately show ?case using entry by simp
qed

lemma length_toUpperCase: "length s \<le> length (toUpperCase s)"
proof (induction s)
  case Nil
  then show ?case by (simp add: toUpperCase_def)
next
  case (Cons c s)
  have "1 \<le> length (upperUnit c)" by (simp add: upperUnit_def)
  with Cons show ?case by (simp add: toUpperCase_def)
qed

lemma length_toLowerCase: "length (toLowerCase s) = length s"
  by (simp add: toLowerCase_def)

lemma getAirportCode_padded_none:
  assumes ws: "list_all isWhiteSpace ws1" "list_all isWhiteSpace ws2"
    and t: "toLowerCase t = key"
    and entry: "(key, coords) \<in> set CITY_COORDS"
    and other: "key \<notin> toLowerCase ` fst ` set GERMAN_AIRPORTS"
  shows "getAirportCode (ws1 @ t @ ws2) = None"
proof -
  define x where "x = ws1 @ t @ ws2"
  define n where "n = toLowerCase x"
  note k = CITY_COORDS_other_keys [OF entry other]
  have n: "n = ws1 @ key @ ws2"
    unfolding n_def x_def using ws t by (simp add: toLowerCase_padded)
  have inside: "sublist key n"
    unfolding n by (rule sublist_appendI)
  have no_hit: "\<not> str_includes (toLowerCase name') n \<and> \<not> str_includes n (toLowerCase name')"
    if mem: "(name', code') \<in> set GERMAN_AIRPORTS" for name' code'
  proof (intro conjI notI)
    assume "str_includes (toLowerCase name') n"
    then have "sublist n (toLowerCase name')" unfolding str_includes_def .
    with inside have "sublist key (toLowerCase name')"
      by (rule sublist_order.order_trans)
    with k(1) [OF mem] show False ..
  next
    assume "str_includes n (toLowerCase name')"
    then have padded: "sublist (toLowerCase name') (ws1 @ key @ ws2)"
      unfolding str_includes_def n .
    have clean: "\<forall>c \<in> set (toLowerCase name'). \<not> isWhiteSpace c"
      using GERMAN_AIRPORTS_no_whitespace [OF mem] by blast
    have "sublist (toLowerCase name') key"
      by (rule sublist_drop_pad [OF padded ws clean])
    with k(2) [OF mem] show False ..
  qed
  have loop: "partialMatch GERMAN_AIRPORTS n = None"
  proof (rule partialMatch_none, rule ballI)
    fix e
    assume "e \<in> set GERMAN_AIRPORTS"
    then show "\<not> str_includes (toLowerCase (fst e)) n \<and> \<not> str_includes n (toLowerCase (fst e))"
      using no_hit [of "fst e" "snd e"] by simp
  qed
  have no_key: "map_of GERMAN_AIRPORTS x = None"
  proof (cases "map_of GERMAN_AIRPORTS x")
    case None
    then show ?thesis .
  next
    case (Some code')
    then have "(x, code') \<in> set GERMAN_AIRPORTS" by (rule map_of_SomeD)
    then have "\<not> sublist key (toLowerCase x)" by (rule k(1))
    with inside show ?thesis unfolding n_def by simp
  qed
  have no_member: "x \<notin> set objectPrototypeNames"
  proof
    assume "x \<in> set objectPrototypeNames"
    then have "\<not> sublist key (toLowerCase x)" by (rule k(3))
    with inside show False unfolding n_def by simp
  qed
  have "length key \<le> length (toUpperCase x)"
  proof -
    have "length key = length t" using t length_toLowerCase [of t] by simp
    also have "\<dots> \<le> length x" unfolding x_def by simp
    also have "\<dots> \<le> length (toUpperCase x)" by (rule length_toUpperCase)
    finally show ?thesis .
  qed
  with k(4) have no_code: "\<not> isIataPattern (toUpperCase x)"
    by (simp add: isIataPattern_def)
  have "getAirportCode x = None"
    using no_key no_member loop no_code unfolding n_def
    by (simp add: getAirportCode_def getProperty_def)
  then show ?thesis unfolding x_def .
qed

section \<open>The claims about the connections endpoint and the lookups\<close>

text \<open>
  C1 as specified: a request whose from or to is an unresolvable city name is answered
  with status 400. The request from=Paris, to=berlin has such a from (no coordinate
  pair, no key of the city table), and the status of its response is 500.
\<close>

theorem GET_connections_unknown_city_status:
  "\<not> isCoordPair (js ''Paris'')
   \<and> map_of CITY_COORDS (trim (toLowerCase (js ''Paris''))) = None
   \<and> status (fst (GET_connections (js ''2026-11-02'') (\<lambda>t. t) (\<lambda>call. Inl Thrown)
        \<lparr>conn_from = Some (js ''Paris''), conn_to = Some (js ''berlin''),
         conn_date = None, conn_time = None\<rparr>)) \<noteq> 400"
  by (simp add: GET_connections_def missing_def location_eval Let_def)

text \<open>
  C1 as the code has it. Let from and to both be present, with code units below 0x100 or
  white space. When at least one of them is unresolvable (no coordinate pair, and in
  lower case and trimmed neither a key of the city table nor the name of an inherited
  member of the table object), the response has status 500 and the message
  "Unbekannte Stadt: ..." naming the first such input, and no request is sent to the
  journey planner.
\<close>

theorem GET_connections_unresolved:
  assumes "conn_from req = Some f" and "f \<noteq> []" and "conn_to req = Some t" and "t \<noteq> []"
    and "latin1OrSpace f" and "latin1OrSpace t"
    and "unresolvable f \<or> unresolvable t"
  shows "GET_connections today formatTime fetch req =
           (\<lparr>status = 500,
             body = ConnectionsError (js ''Unbekannte Stadt: ''
                      @ (if unresolvable f then f else t) @ js ''. Bitte Koordinaten angeben.''),
             cacheControl = None\<rparr>, [])"
proof (cases "unresolvable f")
  case True
  then show ?thesis
    using assms(1-4)
    by (simp add: GET_connections_def missing_def Let_def resolveLocation_unresolvable
        errorMessage_def)
next
  case False
  then obtain v where v: "resolveLocation f = Inr v"
    using resolveLocation_resolvable by blast
  from False assms(7) have "unresolvable t" by simp
  then show ?thesis
    using assms(1-4) False v
    by (simp add: GET_connections_def missing_def Let_def resolveLocation_unresolvable
        errorMessage_def)
qed

theorem GET_connections_unresolved_witness:
  "latin1OrSpace (js ''Paris'') \<and> latin1OrSpace (js ''berlin'')
   \<and> unresolvable (js ''Paris'') \<and> \<not> unresolvable (js ''berlin'')
   \<and> GET_connections (js ''2026-11-02'') (\<lambda>t. t) (\<lambda>call. Inl Thrown)
        \<lparr>conn_from = Some (js ''Paris''), conn_to = Some (js ''berlin''),
         conn_date = None, conn_time = None\<rparr> =
       (\<lparr>status = 500,
         body = ConnectionsError (js ''Unbekannte Stadt: Paris. Bitte Koordinaten angeben.''),
         cacheControl = None\<rparr>, [])
   \<and> GET_connections (js ''2026-11-02'') (\<lambda>t. t) (\<lambda>call. Inl Thrown)
        \<lparr>conn_from = Some (js ''berlin''), conn_to = Some (js ''Paris''),
         conn_date = None, conn_time = None\<rparr> =
       (\<lparr>status = 500,
         body = ConnectionsError (js ''Unbekannte Stadt: Paris. Bitte Koordinaten angeben.''),
         cacheControl = None\<rparr>, [])"
proof -
  have u: "unresolvable (js ''Paris'')" and r: "\<not> unresolvable (js ''berlin'')"
    by (simp_all add: unresolvable_def location_eval)
  have l: "latin1OrSpace (js ''Paris'')" "latin1OrSpace (js ''berlin'')"
    by (simp_all add: latin1OrSpace_def js_def)
  have n: "js ''Paris'' \<noteq> []" "js ''berlin'' \<noteq> []"
    by (simp_all add: js_def)
  have a: "GET_connections (js ''2026-11-02'') (\<lambda>t. t) (\<lambda>call. Inl Thrown)
        \<lparr>conn_from = Some (js ''Paris''), conn_to = Some (js ''berlin''),
         conn_date = None, conn_time = None\<rparr> =
       (\<lparr>status = 500,
         body = ConnectionsError (js ''Unbekannte Stadt: ''
                  @ (if unresolvable (js ''Paris'') then js ''Paris'' else js ''berlin'')
                  @ js ''. Bitte Koordinaten angeben.''),
         cacheControl = None\<rparr>, [])"
    by (rule GET_connections_unresolved [OF _ n(1) _ n(2) l(1) l(2)]) (simp_all add: u)
  have b: "GET_connections (js ''2026-11-02'') (\<lambda>t. t) (\<lambda>call. Inl Thrown)
        \<lparr>conn_from = Some (js ''berlin''), conn_to = Some (js ''Paris''),
         conn_date = None, conn_time = None\<rparr> =
       (\<lparr>status = 500,
         body = ConnectionsError (js ''Unbekannte Stadt: ''
                  @ (if unresolvable (js ''berlin'') then js ''berlin'' else js ''Paris'')
                  @ js ''. Bitte Koordinaten angeben.''),
         cacheControl = None\<rparr>, [])"
    by (rule GET_connections_unresolved [OF _ n(2) _ n(1) l(2) l(1)]) (simp_all add: u)
  from a b u r l show ?thesis by (simp add: js_def)
qed

text \<open>
  C2 as specified: for every supported city name, in its spelling with umlaut and in its
  ASCII spelling, getAirportCode returns the same IATA code in any letter case and with
  white space around it. The ASCII spelling "Muenchen" of a supported city, which the
  coordinate lookup resolves, gets no IATA code at all, while the spelling with umlaut
  gets MUC.
\<close>

theorem getAirportCode_ascii_spelling:
  "getAirportCode (js ''Muenchen'') = None
   \<and> getAirportCode (js ''M'' @ [0xFC] @ js ''nchen'') = Some (JSString (js ''MUC''))
   \<and> resolveLocation (js ''Muenchen'') = Inr (JSString (js ''48.1351,11.5820''))"
  by (simp add: airport_eval location_eval)

text \<open>
  C2 as the code has it. Let t be a city name in any letter case (its lower-case form is
  that of a table entry), with white space before and after it. For a name of the airport
  table (which has the spellings with umlaut only) getAirportCode returns that entry's
  code. For a key of the city table (which has both spellings) the coordinate lookup
  returns that entry's coordinate pair, and getAirportCode returns no code when the key
  is not the lower-case form of a name of the airport table, as for the ASCII spellings.
\<close>

theorem lookups_ignore_case_and_whitespace:
  assumes "list_all isWhiteSpace ws1" and "list_all isWhiteSpace ws2"
    and "toLowerCase t = toLowerCase name"
  shows "((name, code) \<in> set GERMAN_AIRPORTS \<longrightarrow>
            getAirportCode (ws1 @ t @ ws2) = Some (JSString code))
    \<and> ((name, coords) \<in> set CITY_COORDS \<longrightarrow>
            resolveLocation (ws1 @ t @ ws2) = Inr (JSString coords))
    \<and> ((name, coords) \<in> set CITY_COORDS \<and> name \<notin> toLowerCase ` fst ` set GERMAN_AIRPORTS \<longrightarrow>
            getAirportCode (ws1 @ t @ ws2) = None)"
proof (intro conjI impI)
  assume "(name, code) \<in> set GERMAN_AIRPORTS"
  with assms show "getAirportCode (ws1 @ t @ ws2) = Some (JSString code)"
    by (rule getAirportCode_padded)
next
  assume entry: "(name, coords) \<in> set CITY_COORDS"
  then have "toLowerCase name = name" by (rule CITY_COORDS_keys(4))
  with assms(3) have "toLowerCase t = name" by simp
  with assms(1,2) show "resolveLocation (ws1 @ t @ ws2) = Inr (JSString coords)"
    using entry by (rule resolveLocation_padded)
next
  assume "(name, coords) \<in> set CITY_COORDS \<and> name \<notin> toLowerCase ` fst ` set GERMAN_AIRPORTS"
  then have entry: "(name, coords) \<in> set CITY_COORDS"
    and other: "name \<notin> toLowerCase ` fst ` set GERMAN_AIRPORTS"
    by simp_all
  from entry have "toLowerCase name = name" by (rule CITY_COORDS_keys(4))
  with assms(3) have "toLowerCase t = name" by simp
  with assms(1,2) show "getAirportCode (ws1 @ t @ ws2) = None"
    using entry other by (rule getAirportCode_padded_none)
qed

theorem lookups_ignore_case_and_whitespace_witness:
  "getAirportCode (js '' '' @ (js ''M'' @ [0xDC] @ js ''NCHEN'') @ [0x09, 0x3000])
      = Some (JSString (js ''MUC''))
   \<and> resolveLocation (js '' '' @ (js ''M'' @ [0xDC] @ js ''NCHEN'') @ [0x09, 0x3000])
      = Inr (JSString (js ''48.1351,11.5820''))
   \<and> getAirportCode ([0x0A] @ js ''MuEnchen'' @ js ''  '') = None
   \<and> resolveLocation ([0x0A] @ js ''MuEnchen'' @ js ''  '')
      = Inr (JSString (js ''48.1351,11.5820''))"
proof -
  have ws: "list_all isWhiteSpace (js '' '')" "list_all isWhiteSpace [0x09, 0x3000]"
    "list_all isWhiteSpace [0x0A]" "list_all isWhiteSpace (js ''  '')"
    by (simp_all add: isWhiteSpace_def js_def)
  have airport: "toLowerCase (js ''M'' @ [0xDC] @ js ''NCHEN'')
      = toLowerCase (js ''M'' @ [0xFC] @ js ''nchen'')"
    by (simp add: string_eval)
  have city: "toLowerCase (js ''M'' @ [0xDC] @ js ''NCHEN'')
      = toLowerCase (js ''m'' @ [0xFC] @ js ''nchen'')"
    by (simp add: string_eval)
  have ascii: "toLowerCase (js ''MuEnchen'') = toLowerCase (js ''muenchen'')"
    by (simp add: string_eval)
  have e1: "(js ''M'' @ [0xFC] @ js ''nchen'', js ''MUC'') \<in> set GERMAN_AIRPORTS"
    by (simp add: GERMAN_AIRPORTS_def)
  have e2: "(js ''m'' @ [0xFC] @ js ''nchen'', js ''48.1351,11.5820'') \<in> set CITY_COORDS"
    by (simp add: CITY_COORDS_def)
  have e3: "(js ''muenchen'', js ''48.1351,11.5820'') \<in> set CITY_COORDS"
    by (simp add: CITY_COORDS_def)
  have e4: "js ''muenchen'' \<notin> toLowerCase ` fst ` set GERMAN_AIRPORTS"
    by (simp add: GERMAN_AIRPORTS_def string_eval)
  from lookups_ignore_case_and_whitespace [OF ws(1) ws(2) airport, of "js ''MUC''"] e1
  have a: "getAirportCode (js '' '' @ (js ''M'' @ [0xDC] @ js ''NCHEN'') @ [0x09, 0x3000])
      = Some (JSString (js ''MUC''))"
    by blast
  from lookups_ignore_case_and_whitespace [OF ws(1) ws(2) city, of _ "js ''48.1351,11.5820''"] e2
  have b: "resolveLocation (js '' '' @ (js ''M'' @ [0xDC] @ js ''NCHEN'') @ [0x09, 0x3000])
      = Inr (JSString (js ''48.1351,11.5820''))"
    by blast
  from lookups_ignore_case_and_whitespace [OF ws(3) ws(4) ascii, of _ "js ''48.1351,11.5820''"]
    e3 e4
  have c: "getAirportCode ([0x0A] @ js ''MuEnchen'' @ js ''  '') = None"
    and d: "resolveLocation ([0x0A] @ js ''MuEnchen'' @ js ''  '')
      = Inr (JSString (js ''48.1351,11.5820''))"
    by blast+
  from a b c d show ?thesis by blast
qed

section \<open>The claims about the cache and the departures endpoint\<close>

text \<open>
  C4. Cache round trip. After payload P has been written under key K with time-to-live T
  at time t0, a read of K at a time before t0 + T returns P, leaves the cache as it is and
  fetches nothing; a read at t0 + T or later behaves as a read of an absent key: it
  fetches K once, returns what that read would return, and stores fetched data under K.
  A read that finds no entry and fetches P successfully is such a write, at the time of
  storing.
\<close>

theorem fetchWithCache_roundtrip:
  assumes "written = cache(K \<mapsto> \<lparr>data = P, expires = t0 + T\<rparr>)"
  shows "(now < t0 + T \<longrightarrow> fetchWithCache fetch now later written K ttl = (Inr P, written, []))
    \<and> (t0 + T \<le> now \<longrightarrow>
         fst (fetchWithCache fetch now later written K ttl)
           = fst (fetchWithCache fetch now later (written(K := None)) K ttl)
         \<and> snd (snd (fetchWithCache fetch now later written K ttl)) = [K]
         \<and> (\<forall>d. fst (fetchWithCache fetch now later written K ttl) = Inr d \<longrightarrow>
               fst (snd (fetchWithCache fetch now later written K ttl))
                 = written(K \<mapsto> \<lparr>data = d, expires = later + ttl\<rparr>)))
    \<and> (cache K = None \<longrightarrow> fetch K = Inr r \<longrightarrow> resp_ok r \<longrightarrow> resp_json r = Inr P \<longrightarrow>
         fetchWithCache fetch now0 t0 cache K T = (Inr P, written, [K]))"
  using assms
  by (auto simp: fetchWithCache_def split: sum.splits option.splits)

theorem fetchWithCache_roundtrip_witness:
  "fetchWithCache (\<lambda>u. Inl Thrown) 1029 1030
      (Map.empty(js ''k'' \<mapsto> \<lparr>data = (7::nat), expires = 1000 + 30\<rparr>)) (js ''k'') 30
     = (Inr 7, Map.empty(js ''k'' \<mapsto> \<lparr>data = 7, expires = 1000 + 30\<rparr>), [])
   \<and> snd (snd (fetchWithCache (\<lambda>u. Inl Thrown) 1030 1031
      (Map.empty(js ''k'' \<mapsto> \<lparr>data = (7::nat), expires = 1000 + 30\<rparr>)) (js ''k'') 30))
     = [js ''k'']"
proof -
  have a: "(1029::int) < 1000 + 30" and b: "(1000::int) + 30 \<le> 1030" by simp_all
  from fetchWithCache_roundtrip [OF refl, of 1029 1000 30 "\<lambda>u. Inl Thrown" 1030 Map.empty
         "js ''k''" "7::nat" 30] a
       fetchWithCache_roundtrip [OF refl, of 1030 1000 30 "\<lambda>u. Inl Thrown" 1031 Map.empty
         "js ''k''" "7::nat" 30] b
  show ?thesis by blast
qed

text \<open>
  C7. When the station parameter is present and is not a 7 to 8 digit number, the handler
  first searches for it, asking for one result. An empty result is answered with status
  404 and the message "Station not found: " followed by the parameter, and no departures
  are requested. Otherwise the departures of the first stop found are requested, and the
  response of status 200 has one element for each departure that the provider delivered,
  in the same order, with that departure's platform and planned platform and with
  platformChanged true exactly when the platform differs from the planned platform and
  the planned platform is not null.
\<close>

theorem GET_departures_resolves_station:
  assumes "param_station req = Some st" and "st \<noteq> []" and "\<not> isStationId st"
  shows "(\<exists>rest. snd (GET_departures searchLocations getDepartures req) = SearchLocations st 1 # rest)
    \<and> (searchLocations st 1 = Inr [] \<longrightarrow>
          GET_departures searchLocations getDepartures req =
            (\<lparr>status = 404, body = DeparturesError (js ''Station not found: '' @ st),
              cacheControl = None\<rparr>, [SearchLocations st 1]))
    \<and> (\<forall>s others resp.
          searchLocations st 1 = Inr (s # others) \<and>
          getDepartures (stop_id s) (map_option (\<lambda>d. min d 720) (param_duration req))
             (map_option (\<lambda>r. min r 50) (param_results req)) = Inr resp \<longrightarrow>
          (\<exists>views.
             GET_departures searchLocations getDepartures req =
               (\<lparr>status = 200,
                 body = DeparturesOk (stop_id s) (stop_name s) views (realtimeDataUpdatedAt resp),
                 cacheControl = Some (js ''public, max-age=30'')\<rparr>,
                [SearchLocations st 1,
                 GetDepartures (stop_id s) (map_option (\<lambda>d. min d 720) (param_duration req))
                   (map_option (\<lambda>r. min r 50) (param_results req))])
             \<and> length views = length (departures resp)
             \<and> (\<forall>v \<in> set views.
                   out_platformChanged v \<longleftrightarrow>
                     out_platform v \<noteq> out_plannedPlatform v \<and> out_plannedPlatform v \<noteq> None)
             \<and> list_all2
                  (\<lambda>dep v.
                     out_platform v = platform dep
                     \<and> out_plannedPlatform v = plannedPlatform dep
                     \<and> (out_platformChanged v \<longleftrightarrow>
                          platform dep \<noteq> plannedPlatform dep \<and> plannedPlatform dep \<noteq> None))
                  (departures resp) views))"
proof (intro conjI allI impI)
  show "\<exists>rest. snd (GET_departures searchLocations getDepartures req) = SearchLocations st 1 # rest"
    using assms
    by (auto simp: GET_departures_def missing_def Let_def split: sum.splits list.splits)
next
  assume "searchLocations st 1 = Inr []"
  then show "GET_departures searchLocations getDepartures req =
            (\<lparr>status = 404, body = DeparturesError (js ''Station not found: '' @ st),
              cacheControl = None\<rparr>, [SearchLocations st 1])"
    using assms by (simp add: GET_departures_def missing_def Let_def)
next
  fix s others resp
  assume found: "searchLocations st 1 = Inr (s # others) \<and>
          getDepartures (stop_id s) (map_option (\<lambda>d. min d 720) (param_duration req))
             (map_option (\<lambda>r. min r 50) (param_results req)) = Inr resp"
  let ?views = "map departureView (departures resp)"
  have response: "GET_departures searchLocations getDepartures req =
               (\<lparr>status = 200,
                 body = DeparturesOk (stop_id s) (stop_name s) ?views (realtimeDataUpdatedAt resp),
                 cacheControl = Some (js ''public, max-age=30'')\<rparr>,
                [SearchLocations st 1,
                 GetDepartures (stop_id s) (map_option (\<lambda>d. min d 720) (param_duration req))
                   (map_option (\<lambda>r. min r 50) (param_results req))])"
    using assms found by (simp add: GET_departures_def missing_def Let_def)
  have each: "\<forall>v \<in> set ?views.
                   out_platformChanged v \<longleftrightarrow>
                     out_platform v \<noteq> out_plannedPlatform v \<and> out_plannedPlatform v \<noteq> None"
    by (auto simp: departureView_def)
  have tied: "list_all2
                  (\<lambda>dep v.
                     out_platform v = platform dep
                     \<and> out_plannedPlatform v = plannedPlatform dep
                     \<and> (out_platformChanged v \<longleftrightarrow>
                          platform dep \<noteq> plannedPlatform dep \<and> plannedPlatform dep \<noteq> None))
                  (departures resp) ?views"
    by (simp add: list_all2_map2 list_all2_same departureView_def)
  from response each tied
  show "\<exists>views.
             GET_departures searchLocations getDepartures req =
               (\<lparr>status = 200,
                 body = DeparturesOk (stop_id s) (stop_name s) views (realtimeDataUpdatedAt resp),
                 cacheControl = Some (js ''public, max-age=30'')\<rparr>,
                [SearchLocations st 1,
                 GetDepartures (stop_id s) (map_option (\<lambda>d. min d 720) (param_duration req))
                   (map_option (\<lambda>r. min r 50) (param_results req))])
             \<and> length views = length (departures resp)
             \<and> (\<forall>v \<in> set views.
                   out_platformChanged v \<longleftrightarrow>
                     out_platform v \<noteq> out_plannedPlatform v \<and> out_plannedPlatform v \<noteq> None)
             \<and> list_all2
                  (\<lambda>dep v.
                     out_platform v = platform dep
                     \<and> out_plannedPlatform v = plannedPlatform dep
                     \<and> (out_platformChanged v \<longleftrightarrow>
                          platform dep \<noteq> plannedPlatform dep \<and> plannedPlatform dep \<noteq> None))
                  (departures resp) views"
    by (intro exI [of _ ?views] conjI) simp_all
qed

theorem GET_departures_resolves_station_witness:
  "(\<exists>views.
      fst (GET_departures
          (\<lambda>query results. Inr [\<lparr>stop_id = js ''8011160'', stop_name = js ''Berlin Hbf''\<rparr>])
          (\<lambda>stopId duration results. Inr
             \<lparr>departures =
                [\<lparr>dep_when = Some (js ''10:05''), plannedWhen = js ''10:00'', delay = Val 300,
                  platform = Some (js ''5''), plannedPlatform = Some (js ''7''),
                  direction = js ''Hamburg'', dep_line = None, remarks = None\<rparr>,
                 \<lparr>dep_when = Some (js ''10:10''), plannedWhen = js ''10:10'', delay = Null,
                  platform = Some (js ''3''), plannedPlatform = None,
                  direction = js ''Leipzig'', dep_line = None, remarks = None\<rparr>,
                 \<lparr>dep_when = None, plannedWhen = js ''10:20'', delay = Null,
                  platform = Some (js ''2''), plannedPlatform = Some (js ''2''),
                  direction = js ''Dresden'', dep_line = None, remarks = None\<rparr>],
              realtimeDataUpdatedAt = None\<rparr>)
          \<lparr>param_station = Some (js ''Berlin''), param_duration = Some 60,
           param_results = Some 20\<rparr>)
        = \<lparr>status = 200,
           body = DeparturesOk (js ''8011160'') (js ''Berlin Hbf'') views None,
           cacheControl = Some (js ''public, max-age=30'')\<rparr>
      \<and> map out_platformChanged views = [True, False, False]
      \<and> map out_platform views = [Some (js ''5''), Some (js ''3''), Some (js ''2'')])
   \<and> snd (GET_departures
          (\<lambda>query results. Inr [\<lparr>stop_id = js ''8011160'', stop_name = js ''Berlin Hbf''\<rparr>])
          (\<lambda>stopId duration results. Inr \<lparr>departures = [], realtimeDataUpdatedAt = None\<rparr>)
          \<lparr>param_station = Some (js ''Berlin''), param_duration = Some 60,
           param_results = Some 20\<rparr>)
     = [SearchLocations (js ''Berlin'') 1, GetDepartures (js ''8011160'') (Some 60) (Some 20)]
   \<and> GET_departures (\<lambda>query results. Inr [])
          (\<lambda>stopId duration results. Inr \<lparr>departures = [], realtimeDataUpdatedAt = None\<rparr>)
          \<lparr>param_station = Some (js ''Berlin''), param_duration = Some 60,
           param_results = Some 20\<rparr>
     = (\<lparr>status = 404, body = DeparturesError (js ''Station not found: Berlin''),
         cacheControl = None\<rparr>, [SearchLocations (js ''Berlin'') 1])"
proof -
  define req where "req = \<lparr>param_station = Some (js ''Berlin''), param_duration = Some 60,
           param_results = Some 20\<rparr>"
  define gd :: "jsstring \<Rightarrow> int option \<Rightarrow> int option \<Rightarrow> js_error + DeparturesResponse"
    where "gd = (\<lambda>stopId duration results. Inr \<lparr>departures = [], realtimeDataUpdatedAt = None\<rparr>)"
  define board where "board = \<lparr>departures =
                [\<lparr>dep_when = Some (js ''10:05''), plannedWhen = js ''10:00'', delay = Val 300,
                  platform = Some (js ''5''), plannedPlatform = Some (js ''7''),
                  direction = js ''Hamburg'', dep_line = None, remarks = None\<rparr>,
                 \<lparr>dep_when = Some (js ''10:10''), plannedWhen = js ''10:10'', delay = Null,
                  platform = Some (js ''3''), plannedPlatform = None,
                  direction = js ''Leipzig'', dep_line = None, remarks = None\<rparr>,
                 \<lparr>dep_when = None, plannedWhen = js ''10:20'', delay = Null,
                  platform = Some (js ''2''), plannedPlatform = Some (js ''2''),
                  direction = js ''Dresden'', dep_line = None, remarks = None\<rparr>],
              realtimeDataUpdatedAt = None\<rparr>"
  define gb :: "jsstring \<Rightarrow> int option \<Rightarrow> int option \<Rightarrow> js_error + DeparturesResponse"
    where "gb = (\<lambda>stopId duration results. Inr board)"
  define topStop where "topStop = \<lparr>stop_id = js ''8011160'', stop_name = js ''Berlin Hbf''\<rparr>"
  have h: "param_station req = Some (js ''Berlin'')" "js ''Berlin'' \<noteq> []"
    "\<not> isStationId (js ''Berlin'')"
    by (simp_all add: req_def isStationId_def js_def)
  note found = GET_departures_resolves_station [OF h, of "\<lambda>query results. Inr [topStop]" gd,
      THEN conjunct2, THEN conjunct2, rule_format,
      of topStop "[]" "\<lparr>departures = [], realtimeDataUpdatedAt = None\<rparr>"]
  note shown = GET_departures_resolves_station [OF h, of "\<lambda>query results. Inr [topStop]" gb,
      THEN conjunct2, THEN conjunct2, rule_format, of topStop "[]" board]
  have "\<exists>views.
      GET_departures (\<lambda>query results. Inr [topStop]) gb req
        = (\<lparr>status = 200,
            body = DeparturesOk (stop_id topStop) (stop_name topStop) views
                     (realtimeDataUpdatedAt board),
            cacheControl = Some (js ''public, max-age=30'')\<rparr>,
           [SearchLocations (js ''Berlin'') 1,
            GetDepartures (stop_id topStop) (map_option (\<lambda>d. min d 720) (param_duration req))
              (map_option (\<lambda>r. min r 50) (param_results req))])
      \<and> list_all2
            (\<lambda>dep v.
               out_platform v = platform dep
               \<and> out_plannedPlatform v = plannedPlatform dep
               \<and> (out_platformChanged v \<longleftrightarrow>
                    platform dep \<noteq> plannedPlatform dep \<and> plannedPlatform dep \<noteq> None))
            (departures board) views"
    using shown by (fastforce simp: gb_def)
  then obtain views where
    r: "fst (GET_departures (\<lambda>query results. Inr [topStop]) gb req)
        = \<lparr>status = 200,
           body = DeparturesOk (stop_id topStop) (stop_name topStop) views
                    (realtimeDataUpdatedAt board),
           cacheControl = Some (js ''public, max-age=30'')\<rparr>"
    and l: "list_all2
            (\<lambda>dep v.
               out_platform v = platform dep
               \<and> out_plannedPlatform v = plannedPlatform dep
               \<and> (out_platformChanged v \<longleftrightarrow>
                    platform dep \<noteq> plannedPlatform dep \<and> plannedPlatform dep \<noteq> None))
            (departures board) views"
    by auto
  from l have "map out_platformChanged views = [True, False, False]"
    and "map out_platform views = [Some (js ''5''), Some (js ''3''), Some (js ''2'')]"
    by (auto simp: board_def list_all2_Cons1 js_def)
  with r have first: "\<exists>views.
      fst (GET_departures (\<lambda>query results. Inr [topStop]) gb req)
        = \<lparr>status = 200,
           body = DeparturesOk (js ''8011160'') (js ''Berlin Hbf'') views None,
           cacheControl = Some (js ''public, max-age=30'')\<rparr>
      \<and> map out_platformChanged views = [True, False, False]
      \<and> map out_platform views = [Some (js ''5''), Some (js ''3''), Some (js ''2'')]"
    by (auto simp: topStop_def board_def)
  have second: "snd (GET_departures (\<lambda>query results. Inr [topStop]) gd req)
     = [SearchLocations (js ''Berlin'') 1, GetDepartures (js ''8011160'') (Some 60) (Some 20)]"
    using found by (auto simp: gd_def req_def topStop_def)
  have third: "GET_departures (\<lambda>query results. Inr []) gd req
     = (\<lparr>status = 404, body = DeparturesError (js ''Station not found: Berlin''),
         cacheControl = None\<rparr>, [SearchLocations (js ''Berlin'') 1])"
    using GET_departures_resolves_station [OF h, of "\<lambda>query results. Inr []" gd,
      THEN conjunct2, THEN conjunct1]
    by (simp add: js_def)
  from first second third show ?thesis
    unfolding req_def gd_def gb_def board_def topStop_def by blast
qed

end
